theory Spec2Isabelle
  imports Complex_Main "HOL-Library.Word" "HOL-Library.AList"
begin

unbundle bit_operations_syntax

section \<open>JavaScript strings\<close>

text \<open>
  A JavaScript string is modelled as a \<^typ>\<open>string\<close>: a list of code units, each in the
  range U+0000..U+00FF. \<open>length\<close> is \<open>String.length\<close>, \<open>take\<close>/\<open>drop\<close> are
  \<open>slice(0, n)\<close>/\<open>slice(n)\<close> and \<open>@\<close> is \<open>+\<close>.
\<close>

definition isWhiteSpace :: "char \<Rightarrow> bool" where
  \<comment> \<open>the code units \<open>trim()\<close> strips and \<open>\s\<close> matches: TAB, LF, VT, FF, CR, SP, NBSP\<close>
  "isWhiteSpace c = ((of_char c :: nat) \<in> {9, 10, 11, 12, 13, 32, 160})"

definition trimStart :: "string \<Rightarrow> string" where
  "trimStart s = dropWhile isWhiteSpace s"

definition trimEnd :: "string \<Rightarrow> string" where
  "trimEnd s = rev (dropWhile isWhiteSpace (rev s))"

definition trim :: "string \<Rightarrow> string" where
  "trim s = trimEnd (trimStart s)"

definition toLowerChar :: "char \<Rightarrow> char" where
  "toLowerChar c = (let n = (of_char c :: nat) in
     if (65 \<le> n \<and> n \<le> 90) \<or> (192 \<le> n \<and> n \<le> 222 \<and> n \<noteq> 215)
     then char_of (n + 32) else c)"

definition toLowerCase :: "string \<Rightarrow> string" where
  "toLowerCase s = map toLowerChar s"

fun startsWith :: "string \<Rightarrow> string \<Rightarrow> bool" where
  "startsWith s [] = True"
| "startsWith [] (p # ps) = False"
| "startsWith (c # cs) (p # ps) = (c = p \<and> startsWith cs ps)"

fun indexOf :: "string \<Rightarrow> string \<Rightarrow> nat option" where
  \<comment> \<open>\<open>s.indexOf(p)\<close>; \<open>None\<close> is the result \<open>-1\<close>\<close>
  "indexOf [] p = (if p = [] then Some 0 else None)"
| "indexOf (c # cs) p =
     (if startsWith (c # cs) p then Some 0 else map_option Suc (indexOf cs p))"

definition indexOfFrom :: "string \<Rightarrow> string \<Rightarrow> nat \<Rightarrow> nat option" where
  \<comment> \<open>\<open>s.indexOf(p, k)\<close> for \<open>k \<le> length s\<close>\<close>
  "indexOfFrom s p k = map_option (\<lambda>i. i + k) (indexOf (drop k s) p)"

fun lastIndexOf :: "string \<Rightarrow> string \<Rightarrow> nat option" where
  "lastIndexOf [] p = (if p = [] then Some 0 else None)"
| "lastIndexOf (c # cs) p =
     (case lastIndexOf cs p of
        Some i \<Rightarrow> Some (Suc i)
      | None \<Rightarrow> if startsWith (c # cs) p then Some 0 else None)"

definition includes_str :: "string \<Rightarrow> string \<Rightarrow> bool" where
  "includes_str s p = (indexOf s p \<noteq> None)"

fun join :: "string \<Rightarrow> string list \<Rightarrow> string" where
  "join sep [] = []"
| "join sep [x] = x"
| "join sep (x # y # ys) = x @ sep @ join sep (y # ys)"

fun splitLines :: "string \<Rightarrow> string \<Rightarrow> string list" where
  \<comment> \<open>\<open>text.split(/\r?\n/)\<close>, the current piece accumulated in the first argument\<close>
  "splitLines acc [] = [acc]"
| "splitLines acc (c # cs) =
     (if c = CHR 0x0A then acc # splitLines [] cs
      else if c = CHR 0x0D \<and> cs \<noteq> [] \<and> hd cs = CHR 0x0A then acc # splitLines [] (tl cs)
      else splitLines (acc @ [c]) cs)"

section \<open>gRPC-Web codec\<close>

type_synonym byte = "8 word"
type_synonym bytes = "byte list"

text \<open>
  The functions of the platform that the codec calls. They are parameters of the model:
  \<open>textDecode\<close> is \<open>new TextDecoder().decode\<close>, \<open>atob\<close> is \<open>atob\<close> followed by the
  \<open>charCodeAt\<close> loop of \<open>decodeBase64Body\<close> (\<open>None\<close> when \<open>atob\<close> throws),
  \<open>decodeURIComponent\<close> is \<open>None\<close> when it throws, and \<open>toInteger\<close> is
  \<open>Number(raw)\<close> when \<open>Number.isInteger\<close> holds of it.
\<close>

record platform =
  textDecode :: "bytes \<Rightarrow> string"
  atob :: "string \<Rightarrow> bytes option"
  decodeURIComponent :: "string \<Rightarrow> string option"
  toInteger :: "string \<Rightarrow> int option"

record GrpcWebParseResult =
  messages :: "bytes list"
  trailers :: "(string \<times> string) list"
  grpc_status :: "int option"
  grpc_message :: string

definition readHeader :: "(string \<times> string) list option \<Rightarrow> string \<Rightarrow> string" where
  "readHeader headers name =
     (case headers of
        None \<Rightarrow> []
      | Some hs \<Rightarrow>
          (case filter (\<lambda>(k, v). toLowerCase k = toLowerCase name) hs of
             [] \<Rightarrow> []
           | (k, v) # _ \<Rightarrow> trim v))"

definition decodeGrpcMessage :: "platform \<Rightarrow> string \<Rightarrow> string" where
  "decodeGrpcMessage pf v =
     (let raw = trim v in
      if raw = [] then []
      else (case decodeURIComponent pf raw of Some d \<Rightarrow> d | None \<Rightarrow> raw))"

definition isBase64Byte :: "byte \<Rightarrow> bool" where
  \<comment> \<open>the character class \<open>[A-Za-z0-9+/=\r\n]\<close> of \<open>BASE64_BODY_RE\<close>\<close>
  "isBase64Byte b = (let n = unat b in
     (65 \<le> n \<and> n \<le> 90) \<or> (97 \<le> n \<and> n \<le> 122) \<or> (48 \<le> n \<and> n \<le> 57) \<or>
     n = 43 \<or> n = 47 \<or> n = 61 \<or> n = 13 \<or> n = 10)"

definition isProbablyBase64Body :: "bytes \<Rightarrow> bool" where
  "isProbablyBase64Body body =
     (if length body = 0 then False
      else list_all isBase64Byte (take (min (length body) 1024) body))"

definition decodeBase64Body :: "platform \<Rightarrow> string \<Rightarrow> bytes option" where
  "decodeBase64Body pf txt = atob pf txt"

definition maybeDecodeGrpcWebText :: "platform \<Rightarrow> bytes \<Rightarrow> string \<Rightarrow> bytes" where
  "maybeDecodeGrpcWebText pf body contentType =
     (let contentTypeLower = toLowerCase contentType;
          shouldDecodeText = includes_str contentTypeLower ''grpc-web-text'';
          shouldTryHeuristic = (\<not> shouldDecodeText \<and> isProbablyBase64Body body)
      in if \<not> shouldDecodeText \<and> \<not> shouldTryHeuristic then body
         else (let compact = filter (\<lambda>c. \<not> isWhiteSpace c) (textDecode pf body) in
               if compact = [] then body
               else (case decodeBase64Body pf compact of Some decoded \<Rightarrow> decoded | None \<Rightarrow> body)))"

definition assign :: "(string \<times> string) list \<Rightarrow> (string \<times> string) list \<Rightarrow> (string \<times> string) list" where
  \<comment> \<open>\<open>Object.assign(target, source)\<close> on string-valued records kept as association lists\<close>
  "assign target source = foldl (\<lambda>m (k, v). AList.update k v m) target source"

definition parseTrailerLine :: "platform \<Rightarrow> (string \<times> string) list \<Rightarrow> string \<Rightarrow> (string \<times> string) list" where
  "parseTrailerLine pf acc line =
     (case indexOf line '':'' of
        None \<Rightarrow> acc
      | Some i \<Rightarrow>
          (if line = [] then acc
           else (let key = toLowerCase (trim (take i line));
                     v = trim (drop (i + 1) line)
                 in if key = [] then acc
                    else AList.update key
                           (if key = ''grpc-message'' then decodeGrpcMessage pf v else v) acc)))"

definition parseTrailerBlock :: "platform \<Rightarrow> bytes \<Rightarrow> (string \<times> string) list" where
  "parseTrailerBlock pf payload =
     foldl (parseTrailerLine pf) [] (splitLines [] (textDecode pf payload))"

definition parseGrpcStatus :: "platform \<Rightarrow> string \<Rightarrow> int option" where
  "parseGrpcStatus pf v = (let raw = trim v in if raw = [] then None else toInteger pf raw)"

definition encodeGrpcWebFrame :: "bytes \<Rightarrow> bytes" where
  \<comment> \<open>\<open>>>>\<close> reads the length as an unsigned 32-bit integer\<close>
  "encodeGrpcWebFrame payload =
     (let len = (of_nat (length payload) :: 32 word) in
      [0x00,
       ucast (drop_bit 24 len AND 0xff),
       ucast (drop_bit 16 len AND 0xff),
       ucast (drop_bit 8 len AND 0xff),
       ucast (len AND 0xff)] @ payload)"

definition frameLength :: "byte \<Rightarrow> byte \<Rightarrow> byte \<Rightarrow> byte \<Rightarrow> int" where
  \<comment> \<open>\<open><<\<close> and \<open>|\<close> work on signed 32-bit integers\<close>
  "frameLength b1 b2 b3 b4 =
     sint ((push_bit 24 (ucast b1) OR push_bit 16 (ucast b2) OR push_bit 8 (ucast b3) OR ucast b4)
            :: 32 word)"

fun walkFrames ::
  "platform \<Rightarrow> bytes \<Rightarrow> bytes list \<Rightarrow> (string \<times> string) list
     \<Rightarrow> string + (bytes list \<times> (string \<times> string) list)" where
  \<comment> \<open>the \<open>while (offset + 5 <= decodedBody.length)\<close> loop on the bytes from \<open>offset\<close> on\<close>
  "walkFrames pf (flag # b1 # b2 # b3 # b4 # rest) msgs trs =
     (let len = frameLength b1 b2 b3 b4 in
      if len < 0 \<or> nat len > length rest then Inr (msgs, trs)
      else (let payload = take (nat len) rest; rest' = drop (nat len) rest in
            if flag AND 0x80 \<noteq> 0 then walkFrames pf rest' msgs (assign trs (parseTrailerBlock pf payload))
            else if flag AND 0x01 \<noteq> 0 then Inl ''grpc-web compressed frame is not supported''
            else walkFrames pf rest' (msgs @ [payload]) trs))"
| "walkFrames pf body msgs trs = Inr (msgs, trs)"

definition parseGrpcWebResponse ::
  "platform \<Rightarrow> bytes \<Rightarrow> (string \<times> string) list option \<Rightarrow> string option
     \<Rightarrow> string + GrpcWebParseResult" where
  "parseGrpcWebResponse pf body sourceHeaders contentTypeArg =
     (let contentType = (case contentTypeArg of Some c \<Rightarrow> c
                         | None \<Rightarrow> readHeader sourceHeaders ''content-type'');
          decodedBody = maybeDecodeGrpcWebText pf body contentType
      in case walkFrames pf decodedBody [] [] of
           Inl err \<Rightarrow> Inl err
         | Inr (msgs, trs) \<Rightarrow>
             (let trs1 = (if map_of trs ''grpc-status'' \<in> {None, Some []}
                          then (let headerStatus = readHeader sourceHeaders ''grpc-status'' in
                                if headerStatus \<noteq> [] then AList.update ''grpc-status'' headerStatus trs
                                else trs)
                          else trs);
                  trs2 = (if map_of trs1 ''grpc-message'' \<in> {None, Some []}
                          then (let headerMessage = readHeader sourceHeaders ''grpc-message'' in
                                if headerMessage \<noteq> []
                                then AList.update ''grpc-message'' (decodeGrpcMessage pf headerMessage) trs1
                                else trs1)
                          else trs1)
              in Inr \<lparr> messages = msgs, trailers = trs2,
                       grpc_status = parseGrpcStatus pf
                         (case map_of trs2 ''grpc-status'' of Some s \<Rightarrow> s | None \<Rightarrow> []),
                       grpc_message = (case map_of trs2 ''grpc-message'' of Some s \<Rightarrow> s | None \<Rightarrow> []) \<rparr>))"

section \<open>History hash\<close>

record ContentItem =
  item_type :: "string option"
  item_text :: "string option"

datatype MessageContent = Text string | Items "ContentItem list" | NoContent

record GenericMessage =
  role :: "string option"
  content :: MessageContent

fun extractItems :: "ContentItem list \<Rightarrow> string list \<Rightarrow> string list" where
  \<comment> \<open>the \<open>for (const item of content)\<close> loop; the second argument is \<open>parts\<close>\<close>
  "extractItems [] parts = parts"
| "extractItems (item # rest) parts =
     (if item_type item \<noteq> Some ''text'' then extractItems rest parts
      else (let txt = (case item_text item of Some t \<Rightarrow> t | None \<Rightarrow> []) in
            if trim txt \<noteq> [] then extractItems rest (parts @ [txt])
            else extractItems rest parts))"

fun extractText :: "MessageContent \<Rightarrow> string" where
  "extractText (Text s) = s"
| "extractText NoContent = []"
| "extractText (Items xs) = join [] (extractItems xs [])"

fun historyLoop ::
  "GenericMessage list \<Rightarrow> string list \<times> string list \<times> bool \<Rightarrow> string list \<times> string list \<times> bool" where
  \<comment> \<open>the \<open>for (const msg of messages)\<close> loop on \<open>(systemParts, userParts, hasAssistant)\<close>\<close>
  "historyLoop [] st = st"
| "historyLoop (msg # rest) (systemParts, userParts, hasAssistant) =
     (let r = (case role msg of Some r \<Rightarrow> r | None \<Rightarrow> []) in
      if r = ''assistant'' then historyLoop rest (systemParts, userParts, True)
      else (let txt = trim (extractText (content msg)) in
            if txt = [] then historyLoop rest (systemParts, userParts, hasAssistant)
            else if r = ''system''
              then historyLoop rest (systemParts @ [''system:'' @ txt], userParts, hasAssistant)
            else if r = ''user''
              then historyLoop rest (systemParts, userParts @ [''user:'' @ txt], hasAssistant)
            else historyLoop rest (systemParts, userParts, hasAssistant)))"

definition computeHistoryHash ::
  "(string \<Rightarrow> string) \<Rightarrow> GenericMessage list \<Rightarrow> bool \<Rightarrow> string" where
  \<comment> \<open>\<open>sha256Hex\<close> of \<open>./crypto\<close> is the first parameter\<close>
  "computeHistoryHash sha256Hex msgs excludeLastUser =
     (if msgs = [] then []
      else (case historyLoop msgs ([], [], False) of
              (systemParts, userParts, hasAssistant) \<Rightarrow>
                (let usedUsers = (if excludeLastUser \<and> hasAssistant \<and> length userParts > 0
                                  then take (length userParts - 1) userParts else userParts);
                     parts = systemParts @ usedUsers
                 in if parts = [] then [] else sha256Hex (join [CHR 0x0A] parts))))"

text \<open>The claim's words, with the text \<open><t>\<close> of a message as a parameter.\<close>

definition roleOf :: "GenericMessage \<Rightarrow> string" where
  "roleOf msg = (case role msg of Some r \<Rightarrow> r | None \<Rightarrow> [])"

definition partsOfRole :: "(GenericMessage \<Rightarrow> string) \<Rightarrow> string \<Rightarrow> GenericMessage list \<Rightarrow> string list" where
  "partsOfRole textOf r msgs =
     map (\<lambda>m. r @ '':'' @ textOf m) (filter (\<lambda>m. roleOf m = r \<and> textOf m \<noteq> []) msgs)"

definition historyHashSpec ::
  "(string \<Rightarrow> string) \<Rightarrow> (GenericMessage \<Rightarrow> string) \<Rightarrow> GenericMessage list \<Rightarrow> bool \<Rightarrow> string" where
  "historyHashSpec sha256Hex textOf msgs excludeLastUser =
     (let systemParts = partsOfRole textOf ''system'' msgs;
          userParts = partsOfRole textOf ''user'' msgs;
          dropLast = (excludeLastUser \<and> list_ex (\<lambda>m. roleOf m = ''assistant'') msgs \<and> userParts \<noteq> []);
          parts = systemParts @ (if dropLast then butlast userParts else userParts)
      in if parts = [] then [] else sha256Hex (join [CHR 0x0A] parts))"

definition extractedText :: "GenericMessage \<Rightarrow> string" where
  "extractedText m = extractText (content m)"

definition trimmedText :: "GenericMessage \<Rightarrow> string" where
  "trimmedText m = trim (extractText (content m))"

definition message :: "string \<Rightarrow> string \<Rightarrow> GenericMessage" where
  \<comment> \<open>the message \<open>{role: r, content: t}\<close> with string content\<close>
  "message r t = \<lparr> role = Some r, content = Text t \<rparr>"

section \<open>Conversation store\<close>

record ConversationRow =
  scope :: string
  openai_conversation_id :: string
  grok_conversation_id :: string
  last_response_id :: string
  share_link_id :: string
  token :: string
  history_hash :: string
  created_at :: int
  updated_at :: int
  expires_at :: int

record UpsertConversationInput =
  in_scope :: string
  in_openai_conversation_id :: string
  in_grok_conversation_id :: string
  in_last_response_id :: string
  in_share_link_id :: "string option"
  in_token :: string
  in_history_hash :: "string option"
  in_created_at :: "int option"
  in_updated_at :: "int option"
  in_expires_at :: int

type_synonym table = "ConversationRow list"

definition primaryKey :: "ConversationRow \<Rightarrow> string \<times> string" where
  "primaryKey r = (scope r, openai_conversation_id r)"

definition primaryKeyHolds :: "table \<Rightarrow> bool" where
  "primaryKeyHolds db = distinct (map primaryKey db)"

definition selectById :: "table \<Rightarrow> string \<Rightarrow> string \<Rightarrow> ConversationRow option" where
  "selectById db sc cid = find (\<lambda>r. primaryKey r = (sc, cid)) db"

definition deleteById :: "table \<Rightarrow> string \<times> string \<Rightarrow> table" where
  "deleteById db key = filter (\<lambda>r. primaryKey r \<noteq> key) db"

definition upsertConversation :: "int \<Rightarrow> int \<Rightarrow> table \<Rightarrow> UpsertConversationInput \<Rightarrow> table" where
  "upsertConversation now1 now2 db row =
     (let createdAt = (case in_created_at row of Some c \<Rightarrow> c | None \<Rightarrow> now1);
          updatedAt = (case in_updated_at row of Some u \<Rightarrow> u | None \<Rightarrow> now2);
          historyHash = trim (case in_history_hash row of Some h \<Rightarrow> h | None \<Rightarrow> []);
          shareLink = trim (case in_share_link_id row of Some l \<Rightarrow> l | None \<Rightarrow> []);
          key = (in_scope row, in_openai_conversation_id row)
      in if list_ex (\<lambda>r. primaryKey r = key) db
         then map (\<lambda>r. if primaryKey r = key
                         then r\<lparr> grok_conversation_id := in_grok_conversation_id row,
                                 last_response_id := in_last_response_id row,
                                 share_link_id := shareLink,
                                 token := in_token row,
                                 history_hash := historyHash,
                                 updated_at := updatedAt,
                                 expires_at := in_expires_at row \<rparr>
                         else r) db
         else db @ [\<lparr> scope = in_scope row,
                      openai_conversation_id = in_openai_conversation_id row,
                      grok_conversation_id = in_grok_conversation_id row,
                      last_response_id = in_last_response_id row,
                      share_link_id = shareLink,
                      token = in_token row,
                      history_hash = historyHash,
                      created_at = createdAt,
                      updated_at = updatedAt,
                      expires_at = in_expires_at row \<rparr>])"

definition cleanupExpiredConversations :: "real \<Rightarrow> int \<Rightarrow> table \<Rightarrow> nat \<times> table" where
  "cleanupExpiredConversations limit atMs db =
     (let batch = max 1 (min 500 (\<lfloor>if limit = 0 then 100 else limit\<rfloor>));
          rows = take (nat batch) (sort_key expires_at (filter (\<lambda>r. expires_at r \<le> atMs) db))
      in if rows = [] then (0, db)
         else (length rows, foldl deleteById db (map primaryKey rows)))"

definition trimConversationsForToken :: "string \<Rightarrow> string \<Rightarrow> real \<Rightarrow> table \<Rightarrow> nat \<times> table" where
  "trimConversationsForToken sc tk keep db =
     (let keepCount = max 1 (\<lfloor>if keep = 0 then 1 else keep\<rfloor>);
          rows = sort_key (\<lambda>r. - updated_at r) (filter (\<lambda>r. scope r = sc \<and> token r = tk) db)
      in if length rows \<le> nat keepCount then (0, db)
         else (let stale = drop (nat keepCount) rows in
               (length stale, foldl deleteById db (map (\<lambda>r. (sc, openai_conversation_id r)) stale))))"

definition keepCountOf :: "real \<Rightarrow> nat" where
  "keepCountOf keep = nat (max 1 (\<lfloor>if keep = 0 then 1 else keep\<rfloor>))"

definition sameScopeToken :: "string \<Rightarrow> string \<Rightarrow> ConversationRow \<Rightarrow> bool" where
  "sameScopeToken sc tk r = (scope r = sc \<and> token r = tk)"

definition batchOf :: "real \<Rightarrow> nat" where
  "batchOf limit = nat (max 1 (min 500 (\<lfloor>if limit = 0 then 100 else limit\<rfloor>)))"

definition expiredAt :: "int \<Rightarrow> ConversationRow \<Rightarrow> bool" where
  "expiredAt atMs r = (expires_at r \<le> atMs)"

definition clamp :: "real \<Rightarrow> real \<Rightarrow> real \<Rightarrow> real" where
  "clamp x lo hi = max lo (min hi x)"

definition sampleRow :: "string \<Rightarrow> string \<Rightarrow> int \<Rightarrow> int \<Rightarrow> ConversationRow" where
  \<comment> \<open>a row of scope \<open>k:a\<close> for the examples: conversation id, token, \<open>updated_at\<close>, \<open>expires_at\<close>\<close>
  "sampleRow cid tk upd ex =
     \<lparr> scope = ''k:a'', openai_conversation_id = cid, grok_conversation_id = ''g1'',
       last_response_id = ''r1'', share_link_id = [], token = tk, history_hash = [],
       created_at = 0, updated_at = upd, expires_at = ex \<rparr>"

definition sampleInput :: UpsertConversationInput where
  "sampleInput =
     \<lparr> in_scope = ''k:a'', in_openai_conversation_id = ''c1'', in_grok_conversation_id = ''g2'',
       in_last_response_id = ''r2'', in_share_link_id = Some '' link '', in_token = ''t2'',
       in_history_hash = None, in_created_at = Some 7, in_updated_at = None,
       in_expires_at = 900 \<rparr>"

section \<open>Tool-usage card parser\<close>

datatype json =
  JNull | JBool bool | JNumber real | JString string
  | JArray "json list" | JObject "(string \<times> json) list"

text \<open>
  \<open>JSON.parse\<close> and \<open>String(n)\<close> for a number \<open>n\<close> are parameters of the model:
  \<open>jsonParse\<close> is \<open>None\<close> where \<open>JSON.parse\<close> throws, and an object lists its entries in
  the order of \<open>Object.keys\<close>. A thrown exception is the left injection of a sum, holding
  the exception's message.
\<close>

record runtime =
  jsonParse :: "string \<Rightarrow> json option"
  numberToString :: "real \<Rightarrow> string"

record ToolUsageCard =
  card_rolloutId :: string
  card_type :: string
  card_content :: string

record ToolUsageCardConsumeOptions =
  emitLines :: bool
  fallbackRolloutId :: "string option"

record ToolUsageCardConsumeResult =
  result_text :: string
  result_lines :: "string list"

definition TOOL_USAGE_OPEN :: string where "TOOL_USAGE_OPEN = ''<xai:tool_usage_card''"
definition TOOL_USAGE_CLOSE :: string where "TOOL_USAGE_CLOSE = ''</xai:tool_usage_card>''"
definition TOOL_NAME_OPEN :: string where "TOOL_NAME_OPEN = ''<xai:tool_name>''"
definition TOOL_NAME_CLOSE :: string where "TOOL_NAME_CLOSE = ''</xai:tool_name>''"
definition TOOL_ARGS_OPEN :: string where "TOOL_ARGS_OPEN = ''<xai:tool_args>''"
definition TOOL_ARGS_CLOSE :: string where "TOOL_ARGS_CLOSE = ''</xai:tool_args>''"
definition PARTIAL_MARKER :: string where "PARTIAL_MARKER = ''<xai:''"

definition ROLLOUT_KEYS :: "string list" where
  "ROLLOUT_KEYS = [''rollout_id'', ''rolloutid'', ''rollout-id'', ''rollout'']"

definition METADATA_KEYS :: "string list" where
  "METADATA_KEYS = [''id'', ''tool'', ''tool_name'', ''name'', ''type''] @ ROLLOUT_KEYS"

fun replaceCRLF :: "string \<Rightarrow> string" where
  \<comment> \<open>\<open>value.replace(/\r\n/g, "\n")\<close>\<close>
  "replaceCRLF (c # d # cs) =
     (if c = CHR 0x0D \<and> d = CHR 0x0A then CHR 0x0A # replaceCRLF cs else c # replaceCRLF (d # cs))"
| "replaceCRLF cs = cs"

fun splitOn :: "char \<Rightarrow> string \<Rightarrow> string \<Rightarrow> string list" where
  \<comment> \<open>\<open>text.split(sep)\<close> for a one-character separator, the current piece in the second argument\<close>
  "splitOn sep acc [] = [acc]"
| "splitOn sep acc (c # cs) = (if c = sep then acc # splitOn sep [] cs else splitOn sep (acc @ [c]) cs)"

definition normalizeText :: "string \<Rightarrow> string" where
  "normalizeText v = trim (replaceCRLF v)"

fun asScalarText :: "runtime \<Rightarrow> json \<Rightarrow> string" where
  "asScalarText rt (JString s) = trim s"
| "asScalarText rt (JNumber n) = numberToString rt n"
| "asScalarText rt (JBool b) = (if b then ''true'' else ''false'')"
| "asScalarText rt v = []"

definition normalizeToolType :: "string \<Rightarrow> string" where
  "normalizeToolType toolName =
     (let raw = trim toolName; normalized = toLowerCase raw in
      if normalized = ''web_search'' \<or> normalized = ''web-search'' \<or> normalized = ''websearch''
      then ''WebSearch''
      else if normalized = ''search_image'' \<or> normalized = ''search_images''
           \<or> normalized = ''search-image'' \<or> normalized = ''searchimage''
           \<or> normalized = ''image_search''
      then ''SearchImage''
      else if normalized = ''agent_think'' \<or> normalized = ''agent-think''
           \<or> normalized = ''agentthink'' \<or> normalized = ''chatroom_send''
           \<or> normalized = ''chatroom-send''
      then ''AgentThink''
      else if raw \<noteq> [] then raw else ''Unknown'')"

definition parseToolArgs :: "runtime \<Rightarrow> string \<Rightarrow> json" where
  "parseToolArgs rt raw =
     (let txt = trim raw in
      if txt = [] then JString []
      else (case jsonParse rt txt of Some v \<Rightarrow> v | None \<Rightarrow> JString txt))"

fun firstNonEmpty :: "string list \<Rightarrow> string" where
  "firstNonEmpty [] = []"
| "firstNonEmpty (x # xs) = (if x \<noteq> [] then x else firstNonEmpty xs)"

definition entryValueText :: "runtime \<Rightarrow> json \<Rightarrow> string" where
  \<comment> \<open>what one matching entry of \<open>findByPreferredKeys\<close> yields: \<open>direct\<close>, else \<open>joined\<close>\<close>
  "entryValueText rt v =
     (let direct = asScalarText rt v in
      if direct \<noteq> [] then direct
      else (case v of
              JArray items \<Rightarrow>
                trim (join '', '' (filter (\<lambda>s. s \<noteq> []) (map (asScalarText rt) items)))
            | _ \<Rightarrow> []))"

definition matchPreferredKeys :: "runtime \<Rightarrow> string list \<Rightarrow> (string \<times> json) list \<Rightarrow> string" where
  \<comment> \<open>the loops \<open>for (const key of keys) for (const entryKey of Object.keys(obj))\<close>\<close>
  "matchPreferredKeys rt keys entries =
     firstNonEmpty (concat (map (\<lambda>key.
        map (\<lambda>(entryKey, v). entryValueText rt v)
          (filter (\<lambda>(entryKey, v). toLowerCase entryKey = toLowerCase key) entries)) keys))"

text \<open>
  \<open>findByPreferredKeys\<close>. The key list is \<open>None\<close> when the value passed as \<open>keys\<close> is not
  iterable; \<open>for (const key of keys)\<close> then throws a \<open>TypeError\<close>. A scalar or \<open>null\<close>
  value returns the empty string on every path.
\<close>

fun findByPreferredKeys :: "runtime \<Rightarrow> json \<Rightarrow> string list option \<Rightarrow> nat \<Rightarrow> string + string"
  and findInItems :: "runtime \<Rightarrow> json list \<Rightarrow> string list option \<Rightarrow> nat \<Rightarrow> string + string"
  and findInValues :: "runtime \<Rightarrow> (string \<times> json) list \<Rightarrow> string list option \<Rightarrow> nat \<Rightarrow> string + string"
  where
  "findByPreferredKeys rt (JArray items) keys depth =
     (if depth > 6 then Inr [] else findInItems rt items keys (depth + 1))"
| "findByPreferredKeys rt (JObject entries) keys depth =
     (if depth > 6 then Inr []
      else (case keys of
              None \<Rightarrow> Inl ''keys is not iterable''
            | Some ks \<Rightarrow>
                (let found = matchPreferredKeys rt ks entries in
                 if found \<noteq> [] then Inr found else findInValues rt entries keys (depth + 1))))"
| "findByPreferredKeys rt v keys depth = Inr []"
| "findInItems rt [] keys depth = Inr []"
| "findInItems rt (item # rest) keys depth =
     (case findByPreferredKeys rt item keys depth of
        Inl err \<Rightarrow> Inl err
      | Inr found \<Rightarrow> if found \<noteq> [] then Inr found else findInItems rt rest keys depth)"
| "findInValues rt [] keys depth = Inr []"
| "findInValues rt ((k, v) # rest) keys depth =
     (case findByPreferredKeys rt v keys depth of
        Inl err \<Rightarrow> Inl err
      | Inr found \<Rightarrow> if found \<noteq> [] then Inr found else findInValues rt rest keys depth)"

fun findFirstScalar :: "runtime \<Rightarrow> json \<Rightarrow> nat \<Rightarrow> string"
  and firstScalarInItems :: "runtime \<Rightarrow> json list \<Rightarrow> nat \<Rightarrow> string"
  and firstScalarInEntries :: "runtime \<Rightarrow> (string \<times> json) list \<Rightarrow> nat \<Rightarrow> string"
  where
  "findFirstScalar rt (JArray items) depth =
     (if depth > 6 then [] else firstScalarInItems rt items (depth + 1))"
| "findFirstScalar rt (JObject entries) depth =
     (if depth > 6 then [] else firstScalarInEntries rt entries (depth + 1))"
| "findFirstScalar rt v depth = (if depth > 6 then [] else asScalarText rt v)"
| "firstScalarInItems rt [] depth = []"
| "firstScalarInItems rt (item # rest) depth =
     (let found = findFirstScalar rt item depth in
      if found \<noteq> [] then found else firstScalarInItems rt rest depth)"
| "firstScalarInEntries rt [] depth = []"
| "firstScalarInEntries rt ((k, v) # rest) depth =
     (if toLowerCase k \<in> set METADATA_KEYS then firstScalarInEntries rt rest depth
      else (let found = findFirstScalar rt v depth in
            if found \<noteq> [] then found else firstScalarInEntries rt rest depth))"

definition resolveRolloutId :: "runtime \<Rightarrow> json \<Rightarrow> string \<Rightarrow> string + string" where
  "resolveRolloutId rt parsedArgs fallback =
     (case findByPreferredKeys rt parsedArgs (Some ROLLOUT_KEYS) 0 of
        Inl err \<Rightarrow> Inl err
      | Inr fromArgs \<Rightarrow>
          if fromArgs \<noteq> [] then Inr fromArgs
          else (let fb = trim fallback in Inr (if fb \<noteq> [] then fb else ''-'')))"

definition objectPrototypeProperties :: "string list" where
  \<comment> \<open>the property names every object literal inherits from \<open>Object.prototype\<close>\<close>
  "objectPrototypeProperties =
     [''constructor'', ''__defineGetter__'', ''__defineSetter__'', ''hasOwnProperty'',
      ''__lookupGetter__'', ''__lookupSetter__'', ''isPrototypeOf'', ''propertyIsEnumerable'',
      ''toString'', ''valueOf'', ''__proto__'', ''toLocaleString'']"

definition preferredKeysOf :: "string \<Rightarrow> string list option" where
  \<comment> \<open>\<open>keysByType[type] ?? [...]\<close>: \<open>keysByType\<close> is an object literal, so for an inherited
      property name the lookup yields a function (for \<open>__proto__\<close> an object), which is not
      nullish and not iterable\<close>
  "preferredKeysOf t =
     (if t = ''WebSearch'' then Some [''query'', ''queries'', ''keyword'', ''keywords'', ''prompt'', ''text'']
      else if t = ''SearchImage''
        then Some [''query'', ''prompt'', ''description'', ''keyword'', ''keywords'', ''text'']
      else if t = ''AgentThink''
        then Some [''thought'', ''reason'', ''reasoning'', ''content'', ''text'', ''summary'', ''plan'']
      else if t \<in> set objectPrototypeProperties then None
      else Some [''content'', ''text'', ''query'', ''prompt'', ''message''])"

definition resolveContent :: "runtime \<Rightarrow> string \<Rightarrow> json \<Rightarrow> string \<Rightarrow> string + string" where
  "resolveContent rt t parsedArgs rawArgs =
     (case findByPreferredKeys rt parsedArgs (preferredKeysOf t) 0 of
        Inl err \<Rightarrow> Inl err
      | Inr preferred \<Rightarrow>
          if preferred \<noteq> [] then Inr (normalizeText preferred)
          else (let fb = findFirstScalar rt parsedArgs 0 in
                if fb \<noteq> [] then Inr (normalizeText fb) else Inr (normalizeText rawArgs)))"

definition formatCardLine :: "ToolUsageCard \<Rightarrow> string" where
  "formatCardLine tc =
     (let prefix = ''['' @ (if card_rolloutId tc \<noteq> [] then card_rolloutId tc else ''-'')
                   @ '']['' @ card_type tc @ '']'';
          txt = normalizeText (card_content tc)
      in if txt = [] then prefix
         else (let ls = filter (\<lambda>l. l \<noteq> []) (map trim (splitOn (CHR 0x0A) [] txt)) in
               if ls = [] then prefix
               else join [CHR 0x0A] (map (\<lambda>l. prefix @ '' '' @ l) ls)))"

definition startsWithCI :: "string \<Rightarrow> string \<Rightarrow> bool" where
  \<comment> \<open>a case-insensitive match of the lower-case pattern \<open>p\<close> at the start of \<open>s\<close>\<close>
  "startsWithCI s p = startsWith (toLowerCase (take (length p) s)) p"

fun matchToolName :: "string \<Rightarrow> string option" where
  \<comment> \<open>group 1 of the leftmost match of
      \<open>/<xai:tool_name>\s*([^<]+?)\s*<\/xai:tool_name>/i\<close>: the characters up to the next
      \<open><\<close> must be followed by the closing tag; the group is that run without its leading and
      trailing white space, or its last character when it is all white space\<close>
  "matchToolName [] = None"
| "matchToolName (c # cs) =
     (if startsWithCI (c # cs) TOOL_NAME_OPEN
      then (let rest = drop (length TOOL_NAME_OPEN) (c # cs);
                run = takeWhile (\<lambda>x. x \<noteq> CHR ''<'') rest;
                after = dropWhile (\<lambda>x. x \<noteq> CHR ''<'') rest
            in if run \<noteq> [] \<and> startsWithCI after TOOL_NAME_CLOSE
               then Some (if trimStart run = [] then [last run] else trimEnd (trimStart run))
               else matchToolName cs)
      else matchToolName cs)"

fun lazyCData :: "string \<Rightarrow> string \<Rightarrow> string option" where
  \<comment> \<open>\<open>([\s\S]*?)\]\]>\s*<\/xai:tool_args>\<close>: the shortest group, accumulated in the first
      argument\<close>
  "lazyCData acc [] = None"
| "lazyCData acc (c # cs) =
     (if startsWith (c # cs) '']]>'' \<and> startsWithCI (trimStart (drop 3 (c # cs))) TOOL_ARGS_CLOSE
      then Some acc else lazyCData (acc @ [c]) cs)"

fun matchToolArgs :: "string \<Rightarrow> string option" where
  \<comment> \<open>group 1 of the leftmost match of
      \<open>/<xai:tool_args>\s*<!\[CDATA\[([\s\S]*?)\]\]>\s*<\/xai:tool_args>/i\<close>\<close>
  "matchToolArgs [] = None"
| "matchToolArgs (c # cs) =
     (if startsWithCI (c # cs) TOOL_ARGS_OPEN
      then (let rest = trimStart (drop (length TOOL_ARGS_OPEN) (c # cs)) in
            if startsWithCI rest ''<![cdata[''
            then (case lazyCData [] (drop 9 rest) of
                    Some g \<Rightarrow> Some g
                  | None \<Rightarrow> matchToolArgs cs)
            else matchToolArgs cs)
      else matchToolArgs cs)"

definition endsWith :: "string \<Rightarrow> string \<Rightarrow> bool" where
  "endsWith s p = startsWith (rev s) (rev p)"

definition stripCData :: "string \<Rightarrow> string" where
  \<comment> \<open>\<open>.replace(/^<!\[CDATA\[|\]\]>$/g, "")\<close>\<close>
  "stripCData s =
     (let s1 = (if startsWith s ''<![CDATA['' then drop 9 s else s) in
      if endsWith s1 '']]>'' then take (length s1 - 3) s1 else s1)"

definition buildCard :: "runtime \<Rightarrow> string \<Rightarrow> string \<Rightarrow> string \<Rightarrow> string + ToolUsageCard option" where
  \<comment> \<open>the end of \<open>parseCard\<close>, from \<open>const rawArgs = argsMatch[1].trim()\<close> on\<close>
  "buildCard rt toolName g2 fallback =
     (let rawArgs = trim g2;
          parsedArgs = parseToolArgs rt rawArgs;
          t = normalizeToolType toolName
      in case resolveRolloutId rt parsedArgs fallback of
           Inl err \<Rightarrow> Inl err
         | Inr rid \<Rightarrow>
             (case resolveContent rt t parsedArgs rawArgs of
                Inl err \<Rightarrow> Inl err
              | Inr c \<Rightarrow> Inr (Some \<lparr> card_rolloutId = rid, card_type = t, card_content = c \<rparr>)))"

definition parseCard :: "runtime \<Rightarrow> string \<Rightarrow> string \<Rightarrow> string + ToolUsageCard option" where
  "parseCard rt fragment fallback =
     (case matchToolName fragment of
        None \<Rightarrow> Inr None
      | Some g1 \<Rightarrow>
          (case matchToolArgs fragment of
             None \<Rightarrow> Inr None
           | Some g2 \<Rightarrow>
               if g1 = [] \<or> g2 = [] then Inr None
               else (let toolName = trim (stripCData g1) in
                     if toolName = [] then Inr None
                     else buildCard rt toolName g2 fallback)))"

definition findCardStart :: "string \<Rightarrow> nat option" where
  "findCardStart buffer =
     (let lower = toLowerCase buffer in
      case (indexOf lower TOOL_USAGE_OPEN, indexOf lower TOOL_NAME_OPEN) of
        (None, nameIdx) \<Rightarrow> nameIdx
      | (Some usageIdx, None) \<Rightarrow> Some usageIdx
      | (Some usageIdx, Some nameIdx) \<Rightarrow> Some (min usageIdx nameIdx))"

definition findPartialStart :: "string \<Rightarrow> nat option" where
  "findPartialStart buffer =
     (let lower = toLowerCase buffer in
      case lastIndexOf lower PARTIAL_MARKER of
        None \<Rightarrow> None
      | Some idx \<Rightarrow> if length lower - idx > 64 then None else Some idx)"

definition extractCardFragment :: "string \<Rightarrow> (string \<times> nat) option" where
  "extractCardFragment buffer =
     (let lower = toLowerCase buffer in
      if startsWith lower TOOL_USAGE_OPEN
      then (case indexOf lower TOOL_USAGE_CLOSE of
              None \<Rightarrow> None
            | Some closeIdx \<Rightarrow>
                (let e = closeIdx + length TOOL_USAGE_CLOSE in Some (take e buffer, e)))
      else if startsWith lower TOOL_NAME_OPEN
      then (case indexOf lower TOOL_NAME_CLOSE of
              None \<Rightarrow> None
            | Some nameCloseIdx \<Rightarrow>
                (case indexOfFrom lower TOOL_ARGS_CLOSE (nameCloseIdx + length TOOL_NAME_CLOSE) of
                   None \<Rightarrow> None
                 | Some argsCloseIdx \<Rightarrow>
                     (let e = argsCloseIdx + length TOOL_ARGS_CLOSE;
                          trailing = drop e buffer;
                          trimmedLeading = length trailing - length (trimStart trailing);
                          maybeUsageClose =
                            toLowerCase (take (length TOOL_USAGE_CLOSE) (drop trimmedLeading trailing));
                          e' = (if maybeUsageClose = TOOL_USAGE_CLOSE
                                then e + trimmedLeading + length TOOL_USAGE_CLOSE else e)
                      in Some (take e' buffer, e'))))
      else None)"

lemma extractCardFragment_advances:
  "extractCardFragment buffer = Some (fragment, e) \<Longrightarrow> 0 < e"
  by (auto simp: extractCardFragment_def Let_def TOOL_USAGE_CLOSE_def TOOL_ARGS_CLOSE_def
      split: if_splits option.splits)

function consumeLoop ::
  "runtime \<Rightarrow> bool \<Rightarrow> string \<Rightarrow> string \<Rightarrow> string list \<Rightarrow> string list
     \<Rightarrow> string \<times> (string + ToolUsageCardConsumeResult)" where
  \<comment> \<open>the loop \<open>while (this.buffer)\<close>: the buffer, \<open>outText\<close> and \<open>outLines\<close>; the result is
      the buffer left and what \<open>consume\<close> returns or throws\<close>
  "consumeLoop rt emit fallback buffer outText outLines =
     (if buffer = [] then ([], Inr \<lparr> result_text = concat outText, result_lines = outLines \<rparr>)
      else (case findCardStart buffer of
              None \<Rightarrow>
                (case findPartialStart buffer of
                   None \<Rightarrow> ([], Inr \<lparr> result_text = concat (outText @ [buffer]),
                                        result_lines = outLines \<rparr>)
                 | Some partialStart \<Rightarrow>
                     if partialStart > 0
                     then (drop partialStart buffer,
                           Inr \<lparr> result_text = concat (outText @ [take partialStart buffer]),
                                 result_lines = outLines \<rparr>)
                     else (buffer, Inr \<lparr> result_text = concat outText, result_lines = outLines \<rparr>))
            | Some start \<Rightarrow>
                if start > 0
                then consumeLoop rt emit fallback (drop start buffer)
                       (outText @ [take start buffer]) outLines
                else (case extractCardFragment buffer of
                        None \<Rightarrow> (buffer, Inr \<lparr> result_text = concat outText,
                                                  result_lines = outLines \<rparr>)
                      | Some (fragment, e) \<Rightarrow>
                          (case parseCard rt fragment fallback of
                             Inl err \<Rightarrow> (buffer, Inl err)
                           | Inr None \<Rightarrow>
                               consumeLoop rt emit fallback (drop e buffer)
                                 (outText @ [fragment]) outLines
                           | Inr (Some tc) \<Rightarrow>
                               consumeLoop rt emit fallback (drop e buffer) outText
                                 (if emit then outLines @ [formatCardLine tc] else outLines)))))"
  by pat_completeness auto
termination
  by (relation "measure (\<lambda>(rt, emit, fallback, buffer, outText, outLines). length buffer)")
     (auto dest: extractCardFragment_advances)

definition consume ::
  "runtime \<Rightarrow> string \<Rightarrow> ToolUsageCardConsumeOptions \<Rightarrow> string
     \<Rightarrow> string \<times> (string + ToolUsageCardConsumeResult)" where
  \<comment> \<open>the last argument is \<open>this.buffer\<close>; the first component of the result is the buffer after\<close>
  "consume rt input opts buffer =
     consumeLoop rt (emitLines opts)
       (trim (case fallbackRolloutId opts of Some f \<Rightarrow> f | None \<Rightarrow> []))
       (buffer @ input) [] []"

definition flush ::
  "runtime \<Rightarrow> ToolUsageCardConsumeOptions \<Rightarrow> bool \<Rightarrow> string
     \<Rightarrow> string \<times> (string + ToolUsageCardConsumeResult)" where
  "flush rt opts emitIncompleteAsText buffer =
     (case consume rt [] opts buffer of
        (buffer', Inl err) \<Rightarrow> (buffer', Inl err)
      | (buffer', Inr res) \<Rightarrow>
          if emitIncompleteAsText \<and> buffer' \<noteq> []
          then ([], Inr (res\<lparr> result_text := result_text res @ buffer' \<rparr>))
          else (buffer', Inr res))"

definition replaceToolUsageCardsInText ::
  "runtime \<Rightarrow> string \<Rightarrow> ToolUsageCardConsumeOptions \<Rightarrow> string + ToolUsageCardConsumeResult" where
  "replaceToolUsageCardsInText rt input opts =
     (case consume rt input opts [] of
        (b1, Inl err) \<Rightarrow> Inl err
      | (b1, Inr first) \<Rightarrow>
          (case flush rt opts True b1 of
             (b2, Inl err) \<Rightarrow> Inl err
           | (b2, Inr tail) \<Rightarrow>
               Inr \<lparr> result_text = result_text first @ result_text tail,
                     result_lines = result_lines first @ result_lines tail \<rparr>))"

section \<open>NDJSON to SSE stream transformer\<close>

text \<open>
  More of the platform: \<open>urlParse\<close> is \<open>new URL(raw)\<close> (\<open>None\<close> where it throws) and
  \<open>base64Utf8\<close> is \<open>btoa\<close> of the UTF-8 bytes of a string.
\<close>

record url =
  href :: string
  pathname :: string
  search :: string
  hash :: string

record web =
  urlParse :: "string \<Rightarrow> url option"
  base64Utf8 :: "string \<Rightarrow> string"

record GrokSettings =
  filtered_tags :: "string option"
  show_thinking :: "bool option"
  show_search :: "bool option"
  stream_first_response_timeout :: "real option"
  stream_chunk_timeout :: "real option"
  stream_total_timeout :: "real option"
  video_poster_preview :: "bool option"

record StreamOptions =
  settings :: GrokSettings
  base_url :: "string option"
  origin :: string
  hasOnMeta :: bool
  hasOnFinish :: bool

datatype finish_reason = Stop | Error

datatype frame =
  Chunk string string "finish_reason option"
  | Done

text \<open>
  \<open>Chunk model content finish_reason\<close> is the string \<open>makeChunk\<close> builds (its \<open>id\<close> and
  \<open>created\<close> are the same in every chunk of a stream and are left out; an empty content is
  the empty \<open>delta\<close>), \<open>Done\<close> is what \<open>makeDone\<close> builds. What the stream does is a list of
  events: a frame enqueued, a callback invoked (the duration passed to \<open>onFinish\<close> is left
  out), the controller closed.
\<close>

datatype event =
  Enqueue frame
  | OnMeta string string
  | OnFinish nat string string
  | Close

datatype stream_end = Closed | Errored string | Pending

datatype read_outcome =
  TimerWins
  | ReadValue "string option"
  | ReadDone
  | ReadRejected string

text \<open>
  One iteration of the read loop, as the upstream and the clock decide it: \<open>now\<close> is
  \<open>Date.now()\<close> at the head of the loop, \<open>race\<close> is what \<open>Promise.race\<close> settles to when the
  timer is armed (\<open>ReadValue (Some t)\<close>: a chunk that the streaming decoder turns into the
  text \<open>t\<close>; \<open>ReadValue None\<close>: a result without a value; \<open>ReadRejected\<close>: \<open>reader.read()\<close>
  rejects), and \<open>frameTime\<close> is \<open>Date.now()\<close> when the frames of the chunk are handled.
\<close>

record read_step =
  now :: int
  race :: read_outcome
  frameTime :: int

record StreamState =
  finalStatus :: nat
  lastChunkTime :: int
  firstReceived :: bool
  currentModel :: string
  isImage :: bool
  thinkTagOpen :: bool
  lastIsThinking :: bool
  videoProgressStarted :: bool
  lastVideoProgress :: real
  lastToolRolloutId :: string
  toolBuffer :: string
  meta_grokConversationId :: string
  meta_lastResponseId :: string
  lineBuffer :: string
  emitted :: "event list"

datatype 'a control = Continue 'a | Return 'a | Throw string 'a

definition videoProgressLabel :: string where
  \<comment> \<open>the UTF-8 bytes of the five characters before \<open>${progress}%\<close> in the source\<close>
  "videoProgressLabel =
     [CHR 0xE8, CHR 0xA7, CHR 0x86, CHR 0xE9, CHR 0xA2, CHR 0x91, CHR 0xE5, CHR 0xB7, CHR 0xB2,
      CHR 0xE7, CHR 0x94, CHR 0x9F, CHR 0xE6, CHR 0x88, CHR 0x90]"

definition processingErrorLabel :: string where
  \<comment> \<open>the UTF-8 bytes of the prefix of the error chunk in the \<open>catch\<close> block, up to \<open>": "\<close>\<close>
  "processingErrorLabel =
     [CHR 0xE5, CHR 0xA4, CHR 0x84, CHR 0xE7, CHR 0x90, CHR 0x86, CHR 0xE9, CHR 0x94, CHR 0x99,
      CHR 0xE8, CHR 0xAF, CHR 0xAF, CHR 0x3A, CHR 0x20]"

definition defaultModel :: string where
  "defaultModel = ''grok-4-mini-thinking-tahoe''"

fun getProp :: "json option \<Rightarrow> string \<Rightarrow> json option" where
  \<comment> \<open>\<open>v.k\<close> for a value \<open>v\<close> that is not \<open>null\<close> or \<open>undefined\<close>, and \<open>v?.k\<close>; \<open>None\<close> is
      \<open>undefined\<close>\<close>
  "getProp (Some (JObject entries)) k = map_of entries k"
| "getProp v k = None"

fun truthy :: "json option \<Rightarrow> bool" where
  "truthy None = False"
| "truthy (Some JNull) = False"
| "truthy (Some (JBool b)) = b"
| "truthy (Some (JNumber n)) = (n \<noteq> 0)"
| "truthy (Some (JString s)) = (s \<noteq> [])"
| "truthy (Some v) = True"

fun jsString :: "runtime \<Rightarrow> json \<Rightarrow> string"
  and jsElements :: "runtime \<Rightarrow> json list \<Rightarrow> string list" where
  \<comment> \<open>\<open>String(v)\<close>\<close>
  "jsString rt JNull = ''null''"
| "jsString rt (JBool b) = (if b then ''true'' else ''false'')"
| "jsString rt (JNumber n) = numberToString rt n"
| "jsString rt (JString s) = s"
| "jsString rt (JArray items) = join '','' (jsElements rt items)"
| "jsString rt (JObject entries) = ''[object Object]''"
| "jsElements rt [] = []"
| "jsElements rt (x # xs) = (if x = JNull then [] else jsString rt x) # jsElements rt xs"

definition asStr :: "json option \<Rightarrow> string" where
  "asStr v = (case v of Some (JString s) \<Rightarrow> trim s | _ \<Rightarrow> [])"

definition asObj :: "json option \<Rightarrow> json option" where
  "asObj v = (case v of Some (JObject entries) \<Rightarrow> Some (JObject entries) | _ \<Rightarrow> None)"

definition extractMetaFromLine :: "json \<Rightarrow> string \<times> string" where
  \<comment> \<open>for \<open>data\<close> other than \<open>null\<close>; the empty object \<open>{}\<close> is the pair of empty strings\<close>
  "extractMetaFromLine data =
     (case asObj (getProp (Some data) ''result'') of
        None \<Rightarrow> ([], [])
      | Some result \<Rightarrow>
          (let conversation = asObj (getProp (Some result) ''conversation'');
               response = asObj (getProp (Some result) ''response'');
               userResponse = asObj (getProp (Some result) ''userResponse'');
               modelResponse = asObj (getProp (Some result) ''modelResponse'');
               responseModel = asObj (getProp response ''modelResponse'')
           in (asStr (getProp conversation ''conversationId''),
               firstNonEmpty [asStr (getProp response ''responseId''),
                              asStr (getProp responseModel ''responseId''),
                              asStr (getProp modelResponse ''responseId''),
                              asStr (getProp userResponse ''responseId'')])))"

definition toImgProxyUrl :: "StreamOptions \<Rightarrow> string \<Rightarrow> string" where
  "toImgProxyUrl opts path =
     (let b = trim (case base_url opts of Some u \<Rightarrow> u | None \<Rightarrow> []);
          baseUrl = (if b \<noteq> [] then b else origin opts)
      in baseUrl @ ''/images/'' @ path)"

definition quot :: string where
  "quot = [CHR 0x22]"

definition escapeQuotes :: "string \<Rightarrow> string" where
  \<comment> \<open>\<open>.replace(/"/g, "&quot;")\<close>\<close>
  "escapeQuotes s = concat (map (\<lambda>c. if c = CHR 0x22 then ''&quot;'' else [c]) s)"

definition buildVideoTag :: "string \<Rightarrow> string" where
  "buildVideoTag src =
     ''<video src='' @ quot @ src @ quot @ '' controls='' @ quot @ ''controls'' @ quot
     @ '' width='' @ quot @ ''500'' @ quot @ '' height='' @ quot @ ''300'' @ quot
     @ ''></video>'' @ [CHR 0x0A]"

definition anchorOpen :: "string \<Rightarrow> string" where
  "anchorOpen h =
     ''<a href='' @ quot @ h @ quot @ '' target='' @ quot @ ''_blank'' @ quot
     @ '' rel='' @ quot @ ''noopener noreferrer'' @ quot"

definition buildVideoPosterPreview :: "string \<Rightarrow> string option \<Rightarrow> string" where
  "buildVideoPosterPreview videoUrl posterUrl =
     (let h = escapeQuotes videoUrl;
          poster = escapeQuotes (case posterUrl of Some p \<Rightarrow> p | None \<Rightarrow> [])
      in if h = [] then []
         else if poster = [] then anchorOpen h @ ''>'' @ h @ ''</a>'' @ [CHR 0x0A]
         else anchorOpen h @ '' style='' @ quot
           @ ''display:inline-block;position:relative;max-width:100%;text-decoration:none;''
           @ quot @ ''>'' @ [CHR 0x0A]
           @ ''  <img src='' @ quot @ poster @ quot @ '' alt='' @ quot @ ''video'' @ quot
           @ '' style='' @ quot
           @ ''max-width:100%;height:auto;border-radius:12px;display:block;'' @ quot @ '' />''
           @ [CHR 0x0A]
           @ ''  <span style='' @ quot
           @ ''position:absolute;inset:0;display:flex;align-items:center;justify-content:center;''
           @ quot @ ''>'' @ [CHR 0x0A]
           @ ''    <span style='' @ quot
           @ ''width:64px;height:64px;border-radius:9999px;background:rgba(0,0,0,.55);display:flex;align-items:center;justify-content:center;''
           @ quot @ ''>'' @ [CHR 0x0A]
           @ ''      <span style='' @ quot
           @ ''width:0;height:0;border-top:12px solid transparent;border-bottom:12px solid transparent;border-left:18px solid #fff;margin-left:4px;''
           @ quot @ ''></span>'' @ [CHR 0x0A]
           @ ''    </span>'' @ [CHR 0x0A]
           @ ''  </span>'' @ [CHR 0x0A]
           @ ''</a>'' @ [CHR 0x0A])"

definition buildVideoHtml :: "string \<Rightarrow> string option \<Rightarrow> bool \<Rightarrow> string" where
  "buildVideoHtml videoUrl posterUrl posterPreview =
     (if posterPreview then buildVideoPosterPreview videoUrl posterUrl else buildVideoTag videoUrl)"

definition base64UrlEncode :: "web \<Rightarrow> string \<Rightarrow> string" where
  "base64UrlEncode wb input =
     rev (dropWhile (\<lambda>c. c = CHR ''='')
       (rev (map (\<lambda>c. if c = CHR ''+'' then CHR ''-'' else if c = CHR ''/'' then CHR ''_'' else c)
               (base64Utf8 wb input))))"

definition encodeAssetPath :: "web \<Rightarrow> string \<Rightarrow> string" where
  "encodeAssetPath wb raw =
     (case urlParse wb raw of
        Some u \<Rightarrow> ''u_'' @ base64UrlEncode wb (href u)
      | None \<Rightarrow> ''p_'' @ base64UrlEncode wb (if startsWith raw ''/'' then raw else ''/'' @ raw))"

fun keepAssetUrls :: "web \<Rightarrow> json list \<Rightarrow> string list" where
  \<comment> \<open>the loop of \<open>normalizeGeneratedAssetUrls\<close>\<close>
  "keepAssetUrls wb [] = []"
| "keepAssetUrls wb (JString v # rest) =
     (let s = trim v in
      if s = [] \<or> s = ''/'' then keepAssetUrls wb rest
      else (case urlParse wb s of
              Some u \<Rightarrow>
                if pathname u = ''/'' \<and> search u = [] \<and> hash u = [] then keepAssetUrls wb rest
                else s # keepAssetUrls wb rest
            | None \<Rightarrow> s # keepAssetUrls wb rest))"
| "keepAssetUrls wb (v # rest) = keepAssetUrls wb rest"

definition normalizeGeneratedAssetUrls :: "web \<Rightarrow> json option \<Rightarrow> string list" where
  "normalizeGeneratedAssetUrls wb input =
     (case input of Some (JArray items) \<Rightarrow> keepAssetUrls wb items | _ \<Rightarrow> [])"

definition filteredTags :: "StreamOptions \<Rightarrow> string list" where
  "filteredTags opts =
     filter (\<lambda>t. t \<noteq> [])
       (map trim (splitOn (CHR '','') []
          (case filtered_tags (settings opts) of Some t \<Rightarrow> t | None \<Rightarrow> [])))"

definition showThinking :: "StreamOptions \<Rightarrow> bool" where
  "showThinking opts = (show_thinking (settings opts) \<noteq> Some False)"

definition showSearch :: "StreamOptions \<Rightarrow> bool" where
  "showSearch opts = (show_search (settings opts) = Some True)"

definition firstTimeoutMs :: "StreamOptions \<Rightarrow> real" where
  "firstTimeoutMs opts =
     max 0 ((case stream_first_response_timeout (settings opts) of Some t \<Rightarrow> t | None \<Rightarrow> 30) * 1000)"

definition chunkTimeoutMs :: "StreamOptions \<Rightarrow> real" where
  "chunkTimeoutMs opts =
     max 0 ((case stream_chunk_timeout (settings opts) of Some t \<Rightarrow> t | None \<Rightarrow> 120) * 1000)"

definition totalTimeoutMs :: "StreamOptions \<Rightarrow> real" where
  "totalTimeoutMs opts =
     max 0 ((case stream_total_timeout (settings opts) of Some t \<Rightarrow> t | None \<Rightarrow> 600) * 1000)"

definition passthroughFilteredTags :: "StreamOptions \<Rightarrow> string list" where
  "passthroughFilteredTags opts =
     filter (\<lambda>tag. toLowerCase tag \<noteq> ''xai:tool_usage_card'') (filteredTags opts)"

definition shouldEmitToolLines :: "StreamOptions \<Rightarrow> bool" where
  "shouldEmitToolLines opts = (showThinking opts \<and> showSearch opts)"

definition initialState :: "int \<Rightarrow> StreamState" where
  "initialState startTime =
     \<lparr> finalStatus = 200, lastChunkTime = startTime, firstReceived = False,
       currentModel = defaultModel, isImage = False, thinkTagOpen = False,
       lastIsThinking = False, videoProgressStarted = False, lastVideoProgress = - 1,
       lastToolRolloutId = [], toolBuffer = [], meta_grokConversationId = [],
       meta_lastResponseId = [], lineBuffer = [], emitted = [] \<rparr>"

definition enqueue :: "frame \<Rightarrow> StreamState \<Rightarrow> StreamState" where
  "enqueue f st = st\<lparr> emitted := emitted st @ [Enqueue f] \<rparr>"

definition emitTextDelta ::
  "StreamOptions \<Rightarrow> string \<Rightarrow> string list \<Rightarrow> bool \<Rightarrow> json option \<Rightarrow> StreamState \<Rightarrow> StreamState" where
  "emitTextDelta opts txt ls isThinking messageTag st =
     (let opening = (showThinking opts \<and> isThinking \<and> \<not> thinkTagOpen st);
          closing = (showThinking opts \<and> \<not> isThinking \<and> thinkTagOpen st);
          wrapper = (if opening then [''<think>'' @ [CHR 0x0A]]
                     else if closing then [[CHR 0x0A] @ ''</think>'' @ [CHR 0x0A]] else []);
          st1 = (if opening then st\<lparr> thinkTagOpen := True \<rparr>
                 else if closing then st\<lparr> thinkTagOpen := False \<rparr> else st);
          body = (if \<not> isThinking \<or> showThinking opts
                  then map (\<lambda>l. l @ [CHR 0x0A]) ls
                       @ (if txt \<noteq> []
                          then [if messageTag = Some (JString ''header'')
                                then [CHR 0x0A, CHR 0x0A] @ txt @ [CHR 0x0A, CHR 0x0A] else txt]
                          else [])
                  else []);
          payload = concat (wrapper @ body);
          st2 = (if payload \<noteq> [] then enqueue (Chunk (currentModel st1) payload None) st1 else st1)
      in st2\<lparr> lastIsThinking := isThinking \<rparr>)"

definition flushOptions :: "StreamOptions \<Rightarrow> StreamState \<Rightarrow> ToolUsageCardConsumeOptions" where
  "flushOptions opts st =
     \<lparr> emitLines = shouldEmitToolLines opts, fallbackRolloutId = Some (lastToolRolloutId st) \<rparr>"

definition flushToolBuffer ::
  "runtime \<Rightarrow> StreamOptions \<Rightarrow> bool \<Rightarrow> StreamState \<Rightarrow> StreamState control" where
  \<comment> \<open>\<open>Continue\<close> when it returns, \<open>Throw\<close> when \<open>toolUsageParser.flush\<close> throws\<close>
  "flushToolBuffer rt opts isThinkingFrame st =
     (case flush rt (flushOptions opts st) True (toolBuffer st) of
        (b, Inl err) \<Rightarrow> Throw err (st\<lparr> toolBuffer := b \<rparr>)
      | (b, Inr flushed) \<Rightarrow>
          (let st1 = st\<lparr> toolBuffer := b \<rparr> in
           if result_text flushed = [] \<and> result_lines flushed = [] then Continue st1
           else Continue (emitTextDelta opts (result_text flushed) (result_lines flushed)
                            isThinkingFrame None st1)))"

definition closeThinkWrappers :: "StreamOptions \<Rightarrow> StreamState \<Rightarrow> StreamState" where
  "closeThinkWrappers opts st =
     (let st1 = (if showThinking opts \<and> thinkTagOpen st
                 then (enqueue (Chunk (currentModel st) ([CHR 0x0A] @ ''</think>'' @ [CHR 0x0A]) None) st)
                        \<lparr> thinkTagOpen := False \<rparr>
                 else st)
      in if showThinking opts \<and> videoProgressStarted st1
         then (enqueue (Chunk (currentModel st1) (''</think>'' @ [CHR 0x0A]) None) st1)
                \<lparr> videoProgressStarted := False \<rparr>
         else st1)"

definition flushStop :: "runtime \<Rightarrow> StreamOptions \<Rightarrow> StreamState \<Rightarrow> StreamState control" where
  "flushStop rt opts st =
     (case flushToolBuffer rt opts (lastIsThinking st) st of
        Continue st1 \<Rightarrow>
          (let st2 = closeThinkWrappers opts st1;
               st3 = enqueue (Chunk (currentModel st2) [] (Some Stop)) st2
           in Continue (enqueue Done st3))
      | other \<Rightarrow> other)"

definition finish :: "StreamOptions \<Rightarrow> StreamState \<Rightarrow> StreamState" where
  \<comment> \<open>\<open>if (opts.onFinish) await opts.onFinish(...); controller.close();\<close>\<close>
  "finish opts st =
     st\<lparr> emitted := emitted st
           @ (if hasOnFinish opts
              then [OnFinish (finalStatus st) (meta_grokConversationId st) (meta_lastResponseId st)]
              else [])
           @ [Close] \<rparr>"

definition stopAndFinish :: "runtime \<Rightarrow> StreamOptions \<Rightarrow> StreamState \<Rightarrow> StreamState control" where
  \<comment> \<open>\<open>flushStop(); if (opts.onFinish) ...; controller.close(); return;\<close>\<close>
  "stopAndFinish rt opts st =
     (case flushStop rt opts st of
        Continue st1 \<Rightarrow> Return (finish opts st1)
      | other \<Rightarrow> other)"

definition updateMeta :: "StreamOptions \<Rightarrow> string \<times> string \<Rightarrow> StreamState \<Rightarrow> StreamState" where
  "updateMeta opts part st =
     (let c1 = (fst part \<noteq> [] \<and> fst part \<noteq> meta_grokConversationId st);
          st1 = (if c1 then st\<lparr> meta_grokConversationId := fst part \<rparr> else st);
          c2 = (snd part \<noteq> [] \<and> snd part \<noteq> meta_lastResponseId st1);
          st2 = (if c2 then st1\<lparr> meta_lastResponseId := snd part \<rparr> else st1)
      in if (c1 \<or> c2) \<and> hasOnMeta opts
         then st2\<lparr> emitted := emitted st2
                    @ [OnMeta (meta_grokConversationId st2) (meta_lastResponseId st2)] \<rparr>
         else st2)"

definition videoFrame ::
  "runtime \<Rightarrow> web \<Rightarrow> StreamOptions \<Rightarrow> json option \<Rightarrow> StreamState \<Rightarrow> StreamState" where
  \<comment> \<open>the branch \<open>if (videoResp)\<close>, up to its \<open>continue\<close>\<close>
  "videoFrame rt wb opts videoResp st =
     (let progress = (case getProp videoResp ''progress'' of Some (JNumber n) \<Rightarrow> n | _ \<Rightarrow> 0);
          videoUrl = (case getProp videoResp ''videoUrl'' of Some (JString u) \<Rightarrow> u | _ \<Rightarrow> []);
          thumbUrl = (case getProp videoResp ''thumbnailImageUrl'' of Some (JString u) \<Rightarrow> u | _ \<Rightarrow> []);
          st1 = (if progress > lastVideoProgress st
                 then (let st0 = st\<lparr> lastVideoProgress := progress \<rparr>;
                           shown = videoProgressLabel @ numberToString rt progress @ ''%''
                       in if showThinking opts
                          then (if \<not> videoProgressStarted st0
                                then enqueue (Chunk (currentModel st0)
                                       (''<think>'' @ shown @ [CHR 0x0A]) None)
                                       (st0\<lparr> videoProgressStarted := True \<rparr>)
                                else if progress < 100
                                then enqueue (Chunk (currentModel st0) (shown @ [CHR 0x0A]) None) st0
                                else enqueue (Chunk (currentModel st0)
                                       (shown @ ''</think>'' @ [CHR 0x0A]) None)
                                       (st0\<lparr> videoProgressStarted := False \<rparr>))
                          else st0)
                 else st)
      in if videoUrl \<noteq> []
         then (let src = toImgProxyUrl opts (encodeAssetPath wb videoUrl);
                   poster = (if thumbUrl \<noteq> []
                             then Some (toImgProxyUrl opts (encodeAssetPath wb thumbUrl)) else None)
               in enqueue (Chunk (currentModel st1)
                    (buildVideoHtml src poster (video_poster_preview (settings opts) = Some True))
                    None) st1)
         else st1)"

definition imageFrame ::
  "web \<Rightarrow> StreamOptions \<Rightarrow> json option \<Rightarrow> StreamState \<Rightarrow> StreamState control" where
  \<comment> \<open>the branch \<open>if (isImage)\<close>, up to its \<open>continue\<close>\<close>
  "imageFrame wb opts grok st =
     (let modelResp = getProp grok ''modelResponse'' in
      if truthy modelResp
      then (let urls = normalizeGeneratedAssetUrls wb (getProp modelResp ''generatedImageUrls'') in
            if urls \<noteq> []
            then (let linesOut = map (\<lambda>u. ''![Generated Image]('' @ toImgProxyUrl opts (encodeAssetPath wb u)
                                          @ '')'') urls;
                      st1 = enqueue (Chunk (currentModel st) (join [CHR 0x0A] linesOut) (Some Stop)) st;
                      st2 = closeThinkWrappers opts st1
                  in Return (finish opts (enqueue Done st2)))
            else Continue st)
      else (case getProp grok ''token'' of
              Some (JString rawToken) \<Rightarrow>
                if rawToken \<noteq> [] then Continue (enqueue (Chunk (currentModel st) rawToken None) st)
                else Continue st
            | _ \<Rightarrow> Continue st))"

definition textFrame ::
  "runtime \<Rightarrow> StreamOptions \<Rightarrow> json option \<Rightarrow> StreamState \<Rightarrow> StreamState control" where
  \<comment> \<open>the text chat branch: from \<open>const currentIsThinking\<close> to the end of the loop body\<close>
  "textFrame rt opts grok st =
     (let currentIsThinking = truthy (getProp grok ''isThinking'');
          messageTag = getProp grok ''messageTag'';
          rolloutId = asStr (getProp grok ''rolloutId'');
          toolCardId = asStr (getProp grok ''toolUsageCardId'');
          st1 = (if rolloutId \<noteq> [] then st\<lparr> lastToolRolloutId := rolloutId \<rparr>
                 else if toolCardId \<noteq> [] then st\<lparr> lastToolRolloutId := toolCardId \<rparr> else st);
          tok0 = (case getProp grok ''token'' of Some (JString t) \<Rightarrow> t | _ \<Rightarrow> []);
          tok = (if tok0 \<noteq> [] \<and> list_ex (\<lambda>tag. includes_str tok0 tag) (passthroughFilteredTags opts)
                 then [] else tok0)
      in case consume rt tok (flushOptions opts st1) (toolBuffer st1) of
           (b, Inl err) \<Rightarrow> Throw err (st1\<lparr> toolBuffer := b \<rparr>)
         | (b, Inr parsed) \<Rightarrow>
             Continue (emitTextDelta opts (result_text parsed) (result_lines parsed)
                         currentIsThinking messageTag (st1\<lparr> toolBuffer := b \<rparr>)))"

definition errorFrame ::
  "runtime \<Rightarrow> StreamOptions \<Rightarrow> json \<Rightarrow> StreamState \<Rightarrow> StreamState control" where
  \<comment> \<open>the branch \<open>if (err?.message)\<close>; the third argument is \<open>err.message\<close>\<close>
  "errorFrame rt opts errMessage st =
     (case flushToolBuffer rt opts (lastIsThinking st) (st\<lparr> finalStatus := 500 \<rparr>) of
        Continue st1 \<Rightarrow>
          (let st2 = closeThinkWrappers opts st1;
               st3 = enqueue (Chunk (currentModel st2) (''Error: '' @ jsString rt errMessage)
                               (Some Stop)) st2
           in Return (finish opts (enqueue Done st3)))
      | other \<Rightarrow> other)"

definition responseFrame ::
  "runtime \<Rightarrow> web \<Rightarrow> StreamOptions \<Rightarrow> json \<Rightarrow> StreamState \<Rightarrow> StreamState control" where
  \<comment> \<open>the loop body from \<open>const grok = (data as any).result?.response\<close> on\<close>
  "responseFrame rt wb opts data st =
     (let grok = getProp (getProp (Some data) ''result'') ''response'' in
      if \<not> truthy grok then Continue st
      else (let st1 = (case getProp (getProp grok ''userResponse'') ''model'' of
                         Some (JString m) \<Rightarrow>
                           if trim m \<noteq> [] then st\<lparr> currentModel := trim m \<rparr> else st
                       | _ \<Rightarrow> st);
                videoResp = getProp grok ''streamingVideoGenerationResponse''
            in if truthy videoResp then Continue (videoFrame rt wb opts videoResp st1)
               else (let st2 = (if truthy (getProp grok ''imageAttachmentInfo'')
                                then st1\<lparr> isImage := True \<rparr> else st1)
                     in if isImage st2 then imageFrame wb opts grok st2
                        else textFrame rt opts grok st2)))"

definition processLine ::
  "runtime \<Rightarrow> web \<Rightarrow> StreamOptions \<Rightarrow> int \<Rightarrow> string \<Rightarrow> StreamState \<Rightarrow> StreamState control" where
  \<comment> \<open>the body of the inner \<open>while\<close> loop for one trimmed line; \<open>atMs\<close> is \<open>Date.now()\<close>.
      Reading \<open>.result\<close> of \<open>null\<close> in \<open>extractMetaFromLine\<close> throws a \<open>TypeError\<close>.\<close>
  "processLine rt wb opts atMs line st =
     (if line = [] then Continue st
      else (case jsonParse rt line of
              None \<Rightarrow> Continue st
            | Some data \<Rightarrow>
                if data = JNull
                then Throw (''Cannot read properties of null (reading '' @ [CHR 0x27] @ ''result''
                            @ [CHR 0x27] @ '')'') st
                else (let st1 = updateMeta opts (extractMetaFromLine data) st;
                          st2 = st1\<lparr> firstReceived := True, lastChunkTime := atMs \<rparr>
                      in case getProp (getProp (Some data) ''error'') ''message'' of
                           None \<Rightarrow> responseFrame rt wb opts data st2
                         | Some errMessage \<Rightarrow>
                             if truthy (Some errMessage) then errorFrame rt opts errMessage st2
                             else responseFrame rt wb opts data st2)))"

lemma indexOf_nonempty: "indexOf buf p = Some i \<Longrightarrow> p \<noteq> [] \<Longrightarrow> buf \<noteq> []"
  by (cases buf) auto

function lineLoop ::
  "runtime \<Rightarrow> web \<Rightarrow> StreamOptions \<Rightarrow> int \<Rightarrow> string \<Rightarrow> StreamState \<Rightarrow> StreamState control" where
  \<comment> \<open>\<open>while ((idx = buffer.indexOf("\n")) !== -1)\<close>; the buffer is the fifth argument and is
      stored in the state when the loop is left\<close>
  "lineLoop rt wb opts atMs buf st =
     (case indexOf buf [CHR 0x0A] of
        None \<Rightarrow> Continue (st\<lparr> lineBuffer := buf \<rparr>)
      | Some idx \<Rightarrow>
          (case processLine rt wb opts atMs (trim (take idx buf)) st of
             Continue st1 \<Rightarrow> lineLoop rt wb opts atMs (drop (idx + 1) buf) st1
           | Return st1 \<Rightarrow> Return (st1\<lparr> lineBuffer := drop (idx + 1) buf \<rparr>)
           | Throw err st1 \<Rightarrow> Throw err (st1\<lparr> lineBuffer := drop (idx + 1) buf \<rparr>)))"
  by pat_completeness auto
termination
  by (relation "measure (\<lambda>(rt, wb, opts, atMs, buf, st). length buf)")
     (auto dest: indexOf_nonempty)

definition perReadTimeout :: "StreamOptions \<Rightarrow> bool \<Rightarrow> int \<Rightarrow> real" where
  \<comment> \<open>\<open>Math.min(firstReceived ? chunkTimeoutMs : firstTimeoutMs,
        totalTimeoutMs > 0 ? Math.max(0, totalTimeoutMs - elapsed) : Infinity)\<close>\<close>
  "perReadTimeout opts received elapsed =
     (let bound = (if received then chunkTimeoutMs opts else firstTimeoutMs opts) in
      if totalTimeoutMs opts > 0 then min bound (max 0 (totalTimeoutMs opts - real_of_int elapsed))
      else bound)"

definition readWithTimeout :: "real \<Rightarrow> read_outcome \<Rightarrow> read_outcome" where
  "readWithTimeout ms r = (if ms \<le> 0 then TimerWins else r)"

fun readLoop ::
  "runtime \<Rightarrow> web \<Rightarrow> StreamOptions \<Rightarrow> int \<Rightarrow> read_step list \<Rightarrow> StreamState \<Rightarrow> StreamState control" where
  \<comment> \<open>the \<open>while (true)\<close> loop and what follows it in the \<open>try\<close> block; \<open>Continue\<close> when the
      steps given run out with the stream still open\<close>
  "readLoop rt wb opts startTime [] st = Continue st"
| "readLoop rt wb opts startTime (step # rest) st =
     (let elapsed = now step - startTime in
      if \<not> firstReceived st \<and> real_of_int elapsed > firstTimeoutMs opts
      then stopAndFinish rt opts st
      else if totalTimeoutMs opts > 0 \<and> real_of_int elapsed > totalTimeoutMs opts
      then stopAndFinish rt opts st
      else if firstReceived st \<and> real_of_int (now step - lastChunkTime st) > chunkTimeoutMs opts
      then stopAndFinish rt opts st
      else (case readWithTimeout (perReadTimeout opts (firstReceived st) elapsed) (race step) of
              TimerWins \<Rightarrow> stopAndFinish rt opts st
            | ReadRejected err \<Rightarrow> Throw err st
            | ReadDone \<Rightarrow> stopAndFinish rt opts st
            | ReadValue None \<Rightarrow> readLoop rt wb opts startTime rest st
            | ReadValue (Some txt) \<Rightarrow>
                (case lineLoop rt wb opts (frameTime step) (lineBuffer st @ txt) st of
                   Continue st1 \<Rightarrow> readLoop rt wb opts startTime rest st1
                 | other \<Rightarrow> other)))"

definition catchBlock :: "runtime \<Rightarrow> StreamOptions \<Rightarrow> string \<Rightarrow> StreamState \<Rightarrow> event list \<times> stream_end" where
  \<comment> \<open>the \<open>catch (e)\<close> block; an exception thrown in it leaves \<open>start\<close> and errors the stream\<close>
  "catchBlock rt opts err st =
     (case flushToolBuffer rt opts (lastIsThinking st) (st\<lparr> finalStatus := 500 \<rparr>) of
        Continue st1 \<Rightarrow>
          (let st2 = closeThinkWrappers opts st1;
               st3 = enqueue (Chunk (currentModel st2) (processingErrorLabel @ err) (Some Error)) st2
           in (emitted (finish opts (enqueue Done st3)), Closed))
      | Return st1 \<Rightarrow> (emitted st1, Closed)
      | Throw err1 st1 \<Rightarrow> (emitted st1, Errored err1))"

definition createOpenAiStreamFromGrokNdjson ::
  "runtime \<Rightarrow> web \<Rightarrow> StreamOptions \<Rightarrow> (int \<times> read_step list) option \<Rightarrow> event list \<times> stream_end" where
  \<comment> \<open>the body is \<open>None\<close> when \<open>grokResp.body\<close> is \<open>null\<close>, else the value of \<open>Date.now()\<close>
      at the start and the iterations of the read loop\<close>
  "createOpenAiStreamFromGrokNdjson rt wb opts body =
     (case body of
        None \<Rightarrow>
          ([Enqueue (Chunk defaultModel ''Empty response'' (Some Error)), Enqueue Done, Close], Closed)
      | Some (startTime, steps) \<Rightarrow>
          (case readLoop rt wb opts startTime steps (initialState startTime) of
             Continue st \<Rightarrow> (emitted st, Pending)
           | Return st \<Rightarrow> (emitted st, Closed)
           | Throw err st \<Rightarrow> catchBlock rt opts err st))"

section \<open>Sample inputs\<close>

text \<open>
  The inputs of the examples below. \<open>sampleParse\<close> is \<open>JSON.parse\<close> on the texts the examples
  hand to it: it lists them with their values, and every other text the examples parse is
  not JSON.
\<close>

definition searchCard :: string where
  \<open>searchCard = ''<xai:tool_usage_card><xai:tool_name>web_search</xai:tool_name><xai:tool_args><![CDATA[{"query":"foo"}]]></xai:tool_args></xai:tool_usage_card>''\<close>

definition constructorCard :: string where
  \<open>constructorCard = ''<xai:tool_usage_card><xai:tool_name>constructor</xai:tool_name><xai:tool_args><![CDATA[{}]]></xai:tool_args></xai:tool_usage_card>''\<close>

definition constructorLine :: string where
  \<open>constructorLine = ''{"result":{"response":{"token":"'' @ constructorCard @ ''"}}}''\<close>

definition thinkingLine :: string where
  \<open>thinkingLine = ''{"result":{"response":{"isThinking":true,"token":"hi"}}}''\<close>

definition answerLine :: string where
  \<open>answerLine = ''{"result":{"response":{"token":"hello"}}}''\<close>

definition videoLine :: string where
  \<open>videoLine = ''{"result":{"response":{"streamingVideoGenerationResponse":{"progress":50}}}}''\<close>

definition sampleParse :: "string \<Rightarrow> json option" where
  \<open>sampleParse s =
     (if s = ''{}'' then Some (JObject [])
      else if s = ''{"query":"foo"}'' then Some (JObject [(''query'', JString ''foo'')])
      else if s = constructorLine
        then Some (JObject [(''result'', JObject [(''response'',
               JObject [(''token'', JString constructorCard)])])])
      else if s = thinkingLine
        then Some (JObject [(''result'', JObject [(''response'',
               JObject [(''isThinking'', JBool True), (''token'', JString ''hi'')])])])
      else if s = answerLine
        then Some (JObject [(''result'', JObject [(''response'',
               JObject [(''token'', JString ''hello'')])])])
      else if s = videoLine
        then Some (JObject [(''result'', JObject [(''response'',
               JObject [(''streamingVideoGenerationResponse'',
                  JObject [(''progress'', JNumber 50)])])])])
      else None)\<close>

definition sampleRuntime :: runtime where
  \<comment> \<open>\<open>String(50)\<close> is the only number the examples print\<close>
  "sampleRuntime = \<lparr> jsonParse = sampleParse, numberToString = (\<lambda>n. if n = 50 then ''50'' else []) \<rparr>"

definition sampleWeb :: web where
  \<comment> \<open>no example reaches an asset URL\<close>
  "sampleWeb = \<lparr> urlParse = (\<lambda>s. None), base64Utf8 = (\<lambda>s. s) \<rparr>"

definition sampleCardOptions :: ToolUsageCardConsumeOptions where
  "sampleCardOptions = \<lparr> emitLines = True, fallbackRolloutId = Some ''r1'' \<rparr>"

definition defaultSettings :: GrokSettings where
  "defaultSettings =
     \<lparr> filtered_tags = None, show_thinking = None, show_search = None,
       stream_first_response_timeout = None, stream_chunk_timeout = None,
       stream_total_timeout = None, video_poster_preview = None \<rparr>"

definition defaultOptions :: StreamOptions where
  "defaultOptions =
     \<lparr> settings = defaultSettings, base_url = None, origin = ''https://gw'',
       hasOnMeta = True, hasOnFinish = True \<rparr>"

definition chunkAt :: "int \<Rightarrow> string list \<Rightarrow> read_step" where
  \<comment> \<open>a read at time \<open>t\<close> that wins the race with a chunk holding the given lines\<close>
  "chunkAt t ls = \<lparr> now = t, race = ReadValue (Some (concat (map (\<lambda>l. l @ [CHR 0x0A]) ls))),
                    frameTime = t \<rparr>"

definition doneAt :: "int \<Rightarrow> read_step" where
  "doneAt t = \<lparr> now = t, race = ReadDone, frameTime = t \<rparr>"

fun feedPieces ::
  "runtime \<Rightarrow> ToolUsageCardConsumeOptions \<Rightarrow> string list \<Rightarrow> string \<Rightarrow> string \<Rightarrow> string list
     \<Rightarrow> string + ToolUsageCardConsumeResult" where
  \<comment> \<open>\<open>consume\<close> on each piece in order on one parser, then \<open>flush\<close> with
      \<open>emitIncompleteAsText\<close>; the texts concatenated and the lines in sequence\<close>
  "feedPieces rt opts [] buffer txt ls =
     (case flush rt opts True buffer of
        (b, Inl err) \<Rightarrow> Inl err
      | (b, Inr tail) \<Rightarrow>
          Inr \<lparr> result_text = txt @ result_text tail, result_lines = ls @ result_lines tail \<rparr>)"
| "feedPieces rt opts (piece # rest) buffer txt ls =
     (case consume rt piece opts buffer of
        (b, Inl err) \<Rightarrow> Inl err
      | (b, Inr r) \<Rightarrow> feedPieces rt opts rest b (txt @ result_text r) (ls @ result_lines r))"

fun occurrences :: "string \<Rightarrow> string \<Rightarrow> nat" where
  \<comment> \<open>the number of places of \<open>s\<close> where \<open>p\<close> starts\<close>
  "occurrences p [] = 0"
| "occurrences p (c # cs) = (if startsWith (c # cs) p then 1 else 0) + occurrences p cs"

fun contents :: "event list \<Rightarrow> string list" where
  \<comment> \<open>the contents of the chunks enqueued, in order\<close>
  "contents [] = []"
| "contents (Enqueue (Chunk m c f) # es) = c # contents es"
| "contents (e # es) = contents es"

definition thinkOpens :: "event list \<Rightarrow> nat" where
  "thinkOpens es = sum_list (map (occurrences ''<think>'') (contents es))"

definition thinkCloses :: "event list \<Rightarrow> nat" where
  "thinkCloses es = sum_list (map (occurrences ''</think>'') (contents es))"

definition doneFrames :: "event list \<Rightarrow> nat" where
  "doneFrames es = length (filter (\<lambda>e. e = Enqueue Done) es)"

definition finishCalls :: "event list \<Rightarrow> nat" where
  "finishCalls es = length (filter (\<lambda>e. case e of OnFinish s c r \<Rightarrow> True | _ \<Rightarrow> False) es)"

text \<open>
  The shapes of an event list: \<open>quiet\<close> while the stream is open, \<open>closing\<close> once it has
  been closed.
\<close>

definition quiet :: "event list \<Rightarrow> bool" where
  \<comment> \<open>only chunks and \<open>onMeta\<close> calls so far\<close>
  "quiet evs = list_all (\<lambda>e. case e of Enqueue (Chunk m c f) \<Rightarrow> True | OnMeta a b \<Rightarrow> True | _ \<Rightarrow> False) evs"

definition closing :: "StreamOptions \<Rightarrow> event list \<Rightarrow> bool" where
  \<comment> \<open>chunks, then \<open>[DONE]\<close>, the \<open>onFinish\<close> call when the callback is supplied, and \<open>close\<close>\<close>
  "closing opts evs =
     (\<exists>pre s c r. quiet pre \<and>
        evs = pre @ [Enqueue Done] @ (if hasOnFinish opts then [OnFinish s c r] else []) @ [Close])"

definition settled :: "StreamOptions \<Rightarrow> StreamState control \<Rightarrow> bool" where
  "settled opts r =
     (case r of Continue st \<Rightarrow> quiet (emitted st)
      | Throw err st \<Rightarrow> quiet (emitted st)
      | Return st \<Rightarrow> closing opts (emitted st))"

definition steady :: "StreamState control \<Rightarrow> bool" where
  "steady r =
     (case r of Continue st \<Rightarrow> quiet (emitted st)
      | Throw err st \<Rightarrow> quiet (emitted st)
      | Return st \<Rightarrow> False)"

section \<open>gRPC-Web codec: properties\<close>

lemma byte_mask_32: "(0xff :: 32 word) = mask 8"
  by (simp add: mask_eq_exp_minus_1)

lemma frame_length_bytes:
  "(push_bit 24 (ucast (ucast (drop_bit 24 w AND 0xff) :: byte)) OR
    push_bit 16 (ucast (ucast (drop_bit 16 w AND 0xff) :: byte)) OR
    push_bit 8 (ucast (ucast (drop_bit 8 w AND 0xff) :: byte)) OR
    ucast (ucast (w AND 0xff) :: byte)) = (w :: 32 word)"
  unfolding byte_mask_32
proof (rule bit_word_eqI)
  fix n assume n: "n < LENGTH(32)"
  consider "n < 8" | "8 \<le> n" "n < 16" | "16 \<le> n" "n < 24" | "24 \<le> n" by linarith
  then show "bit (push_bit 24 (ucast (ucast (drop_bit 24 w AND mask 8) :: byte)) OR
    push_bit 16 (ucast (ucast (drop_bit 16 w AND mask 8) :: byte)) OR
    push_bit 8 (ucast (ucast (drop_bit 8 w AND mask 8) :: byte)) OR
    ucast (ucast (w AND mask 8) :: byte) :: 32 word) n = bit w n"
    using n by cases (auto simp: bit_simps)
qed

lemma sint_of_nat_small: "n < 2147483648 \<Longrightarrow> sint (of_nat n :: 32 word) = int n"
proof -
  assume small: "n < 2147483648"
  have "sint (of_nat n :: 32 word) = signed_take_bit 31 (int n)"
    using sint_sbintrunc'[where 'a=32 and bin="int n"] by simp
  also have "\<dots> = int n"
    using small by (simp add: signed_take_bit_int_eq_self)
  finally show ?thesis .
qed

lemma frameLength_encoded:
  "frameLength (ucast (drop_bit 24 w AND 0xff)) (ucast (drop_bit 16 w AND 0xff))
     (ucast (drop_bit 8 w AND 0xff)) (ucast (w AND 0xff)) = sint (w :: 32 word)"
  unfolding frameLength_def by (simp only: frame_length_bytes)

lemma walkFrames_encoded_message:
  assumes "sint (of_nat (length P) :: 32 word) = int (length P)"
  shows "walkFrames pf (encodeGrpcWebFrame P) [] [] = Inr ([P], [])"
  using assms by (simp add: encodeGrpcWebFrame_def Let_def frameLength_encoded)

lemma walkFrames_encoded_negative:
  assumes "sint (of_nat (length P) :: 32 word) < 0"
  shows "walkFrames pf (encodeGrpcWebFrame P) [] [] = Inr ([], [])"
  using assms by (simp add: encodeGrpcWebFrame_def Let_def frameLength_encoded)

lemma encoded_frame_not_text:
  "maybeDecodeGrpcWebText pf (encodeGrpcWebFrame P) [] = encodeGrpcWebFrame P"
  by (simp add: maybeDecodeGrpcWebText_def toLowerCase_def includes_str_def
      isProbablyBase64Body_def encodeGrpcWebFrame_def isBase64Byte_def Let_def)

lemma parse_without_headers:
  assumes "walkFrames pf (encodeGrpcWebFrame P) [] [] = Inr (ms, [])"
  shows "parseGrpcWebResponse pf (encodeGrpcWebFrame P) None None =
     Inr \<lparr> messages = ms, trailers = [], grpc_status = None, grpc_message = [] \<rparr>"
  by (simp add: parseGrpcWebResponse_def readHeader_def encoded_frame_not_text assms
      parseGrpcStatus_def trim_def trimStart_def trimEnd_def)

lemma parse_two_gib_payload:
  "parseGrpcWebResponse pf (encodeGrpcWebFrame (replicate 2147483648 0)) None None =
     Inr \<lparr> messages = [], trailers = [], grpc_status = None, grpc_message = [] \<rparr>"
proof -
  have "sint (of_nat 2147483648 :: 32 word) < 0" by simp
  then show ?thesis
    by (intro parse_without_headers walkFrames_encoded_negative) simp
qed

text \<open>
  C5, as the claim states it, for every payload: refuted. A payload of \<open>2^31\<close> bytes has
  the length field \<open>80 00 00 00\<close>, which \<open>parseGrpcWebResponse\<close> reads as the negative
  signed 32-bit integer \<open>-2^31\<close>; the guard \<open>length < 0\<close> stops the walk and no message is
  returned.
\<close>

theorem C5_every_payload_counterexample:
  "\<not> (\<exists>pf r. parseGrpcWebResponse pf (encodeGrpcWebFrame (replicate 2147483648 0)) None None = Inr r
         \<and> messages r = [replicate 2147483648 0])"
  by (auto simp: parse_two_gib_payload)

text \<open>
  C5, amended: for every payload \<open>P\<close> of fewer than \<open>2^31\<close> bytes, whatever the platform's
  decoders do, \<open>parseGrpcWebResponse\<close> applied to the body \<open>encodeGrpcWebFrame P\<close> with no
  headers and no content type returns normally, with \<open>messages = [P]\<close>, no trailers, no
  status and an empty message.
\<close>

theorem C5_grpc_frame_roundtrip:
  assumes "length P < 2147483648"
  shows "parseGrpcWebResponse pf (encodeGrpcWebFrame P) None None =
     Inr \<lparr> messages = [P], trailers = [], grpc_status = None, grpc_message = [] \<rparr>"
  using assms
  by (intro parse_without_headers walkFrames_encoded_message) (simp add: sint_of_nat_small)

theorem C5_grpc_frame_roundtrip_witness:
  "\<forall>pf. parseGrpcWebResponse pf (encodeGrpcWebFrame [0x0a, 0x03, 0x61, 0x62, 0x63]) None None =
     Inr \<lparr> messages = [[0x0a, 0x03, 0x61, 0x62, 0x63]], trailers = [], grpc_status = None,
           grpc_message = [] \<rparr>"
  using C5_grpc_frame_roundtrip [of "[0x0a, 0x03, 0x61, 0x62, 0x63]"] by simp

section \<open>History hash: properties\<close>

lemma historyLoop_spec:
  "historyLoop msgs (sp, up, ha) =
     (sp @ partsOfRole trimmedText ''system'' msgs,
      up @ partsOfRole trimmedText ''user'' msgs,
      ha \<or> list_ex (\<lambda>m. roleOf m = ''assistant'') msgs)"
proof (induction msgs arbitrary: sp up ha)
  case Nil
  then show ?case by (simp add: partsOfRole_def)
next
  case (Cons m ms)
  show ?case
    by (simp add: Cons.IH partsOfRole_def roleOf_def trimmedText_def Let_def split: option.splits)
qed

lemma history_hash_refines:
  "computeHistoryHash sha msgs ex = historyHashSpec sha trimmedText msgs ex"
proof (cases "msgs = []")
  case True
  then show ?thesis by (simp add: computeHistoryHash_def historyHashSpec_def partsOfRole_def)
next
  case False
  then show ?thesis
    by (auto simp add: computeHistoryHash_def historyHashSpec_def historyLoop_spec Let_def
        butlast_conv_take)
qed

lemma padded_user_hashed_input:
  "computeHistoryHash (\<lambda>s. s) [message ''user'' '' U''] False = ''user:U''"
  by (simp add: computeHistoryHash_def message_def trim_def trimStart_def trimEnd_def
      isWhiteSpace_def)

lemma padded_user_claimed_input:
  "historyHashSpec (\<lambda>s. s) extractedText [message ''user'' '' U''] False = ''user: U''"
  by (simp add: historyHashSpec_def message_def partsOfRole_def extractedText_def roleOf_def)

text \<open>
  C6, as the claim states it, with \<open><t>\<close> the extracted text of the message: refuted. For
  the single message \<open>{role: "user", content: " U"}\<close> the extracted text is \<open>" U"\<close>, so
  the claim hashes \<open>"user: U"\<close>; \<open>computeHistoryHash\<close> trims the extracted text and hashes
  \<open>"user:U"\<close>. The hash function is a parameter: the two results differ for every hash
  that tells the two strings apart, here the identity.
\<close>

theorem C6_extracted_text_counterexample:
  "\<not> (\<forall>sha. computeHistoryHash sha [message ''user'' '' U''] False
                = historyHashSpec sha extractedText [message ''user'' '' U''] False)"
proof
  assume "\<forall>sha. computeHistoryHash sha [message ''user'' '' U''] False
                = historyHashSpec sha extractedText [message ''user'' '' U''] False"
  then have "computeHistoryHash (\<lambda>s. s) [message ''user'' '' U''] False
      = historyHashSpec (\<lambda>s. s) extractedText [message ''user'' '' U''] False"
    by blast
  then show False
    by (simp only: padded_user_hashed_input padded_user_claimed_input) simp
qed

text \<open>
  C6, amended: for every hash function \<open>sha\<close> standing for \<open>sha256Hex\<close>, every message list
  and every \<open>excludeLastUser\<close>, \<open>computeHistoryHash\<close> is \<open>sha\<close> of the parts
  \<open>system:<t>\<close> (one per system message, in order) followed by \<open>user:<t>\<close> (one per user
  message, in order) joined by a newline, where \<open><t>\<close> is the extracted text with leading and
  trailing white space trimmed and a message counts when its trimmed text is not empty; the
  last user part is dropped iff \<open>excludeLastUser\<close> holds, some message has the role
  \<open>assistant\<close> and there is a user part; with no parts the result is the empty string. In
  particular the messages system \<open>S\<close>, user \<open>U1\<close>, assistant \<open>A1\<close>, user \<open>U2\<close> with
  \<open>excludeLastUser = true\<close> hash to \<open>sha "system:S\nuser:U1"\<close>, as does the prefix system
  \<open>S\<close>, user \<open>U1\<close> with \<open>excludeLastUser = false\<close>.
\<close>

theorem C6_history_hash:
  "computeHistoryHash sha msgs ex = historyHashSpec sha trimmedText msgs ex
   \<and> computeHistoryHash sha
         [message ''system'' ''S'', message ''user'' ''U1'', message ''assistant'' ''A1'',
          message ''user'' ''U2''] True
       = sha (''system:S'' @ [CHR 0x0A] @ ''user:U1'')
   \<and> computeHistoryHash sha [message ''system'' ''S'', message ''user'' ''U1''] False
       = sha (''system:S'' @ [CHR 0x0A] @ ''user:U1'')"
proof (intro conjI)
  show "computeHistoryHash sha msgs ex = historyHashSpec sha trimmedText msgs ex"
    by (rule history_hash_refines)
  show "computeHistoryHash sha
         [message ''system'' ''S'', message ''user'' ''U1'', message ''assistant'' ''A1'',
          message ''user'' ''U2''] True
       = sha (''system:S'' @ [CHR 0x0A] @ ''user:U1'')"
    by (simp add: computeHistoryHash_def message_def trim_def trimStart_def trimEnd_def
        isWhiteSpace_def)
  show "computeHistoryHash sha [message ''system'' ''S'', message ''user'' ''U1''] False
       = sha (''system:S'' @ [CHR 0x0A] @ ''user:U1'')"
    by (simp add: computeHistoryHash_def message_def trim_def trimStart_def trimEnd_def
        isWhiteSpace_def)
qed

section \<open>Conversation store: properties\<close>


lemma foldl_deleteById: "foldl deleteById db keys = filter (\<lambda>r. primaryKey r \<notin> set keys) db"
  by (induction keys arbitrary: db) (auto simp: deleteById_def intro: filter_cong)

lemma pk_inj: "primaryKeyHolds db \<Longrightarrow> inj_on primaryKey (set db)"
  by (simp add: primaryKeyHolds_def distinct_map)

lemma pk_distinct: "primaryKeyHolds db \<Longrightarrow> distinct db"
  by (simp add: primaryKeyHolds_def distinct_map)

lemma delete_rows:
  assumes "primaryKeyHolds db" "set rows \<subseteq> set db"
  shows "foldl deleteById db (map primaryKey rows) = filter (\<lambda>r. r \<notin> set rows) db"
proof -
  have "\<And>r. r \<in> set db \<Longrightarrow> (primaryKey r \<in> primaryKey ` set rows) = (r \<in> set rows)"
    using pk_inj[OF assms(1)] assms(2) by (auto simp: inj_on_def)
  then show ?thesis
    by (auto simp: foldl_deleteById intro!: filter_cong)
qed

lemma length_filter_notin:
  assumes "distinct xs" "distinct ys" "set ys \<subseteq> set xs"
  shows "length (filter (\<lambda>r. r \<notin> set ys) xs) = length xs - length ys"
proof -
  have "length (filter (\<lambda>r. r \<notin> set ys) xs) = card (set xs - set ys)"
    using assms(1) by (metis distinct_card distinct_filter set_diff_eq set_filter)
  also have "\<dots> = card (set xs) - card (set ys)"
    using assms(3) by (simp add: card_Diff_subset)
  finally show ?thesis using assms by (simp add: distinct_card)
qed

lemma sorted_take_drop:
  assumes "sorted (map f xs)" "x \<in> set (take k xs)" "y \<in> set (drop k xs)"
  shows "f x \<le> f y"
proof -
  have "sorted (map f (take k xs) @ map f (drop k xs))"
    using assms(1) by (metis append_take_drop_id map_append)
  then show ?thesis using assms(2,3) by (auto simp: sorted_append)
qed

lemma set_take_drop_split:
  assumes "distinct xs"
  shows "set xs - set (drop k xs) = set (take k xs)"
proof -
  have "distinct (take k xs @ drop k xs)" using assms by simp
  then have "set (take k xs) \<inter> set (drop k xs) = {}" by (simp only: distinct_append)
  moreover have "set xs = set (take k xs) \<union> set (drop k xs)"
    by (metis append_take_drop_id set_append)
  ultimately show ?thesis by auto
qed

lemma filter_swap: "filter P (filter Q xs) = filter Q (filter P xs)"
  by (induction xs) auto

lemma set_drop_take_split:
  assumes "distinct xs"
  shows "set xs - set (take k xs) = set (drop k xs)"
proof -
  have "distinct (take k xs @ drop k xs)" using assms by simp
  then have "set (take k xs) \<inter> set (drop k xs) = {}" by (simp only: distinct_append)
  moreover have "set xs = set (take k xs) \<union> set (drop k xs)"
    by (metis append_take_drop_id set_append)
  ultimately show ?thesis by auto
qed

lemma trim_unfold:
  "trimConversationsForToken sc tk keep db =
     (let rows = sort_key (\<lambda>r. - updated_at r) (filter (sameScopeToken sc tk) db) in
      if length rows \<le> keepCountOf keep then (0, db)
      else (length (drop (keepCountOf keep) rows),
            filter (\<lambda>r. primaryKey r \<notin> set (map primaryKey (drop (keepCountOf keep) rows))) db))"
proof -
  let ?rows = "sort_key (\<lambda>r. - updated_at r) (filter (\<lambda>r. scope r = sc \<and> token r = tk) db)"
  have eq: "map (\<lambda>r. (sc, openai_conversation_id r)) (drop k ?rows) = map primaryKey (drop k ?rows)" for k
  proof (rule map_cong[OF refl])
    fix r assume "r \<in> set (drop k ?rows)"
    then have "r \<in> set ?rows" by (rule in_set_dropD)
    then show "(sc, openai_conversation_id r) = primaryKey r"
      by (simp add: primaryKey_def)
  qed
  show ?thesis
    unfolding trimConversationsForToken_def keepCountOf_def sameScopeToken_def Let_def eq
      foldl_deleteById
    by (rule refl)
qed

lemma filter_filter_absorb: "(\<And>x. P x \<Longrightarrow> Q x) \<Longrightarrow> filter P (filter Q xs) = filter P xs"
  by (induction xs) auto

text \<open>
  C7, as the claim states it, for every keep value \<open>k\<close>: refuted. With \<open>keep = 0\<close> the
  count kept is \<open>Math.max(1, Math.floor(keep || 1)) = 1\<close>, so the single row of the pair
  stays and more than \<open>0\<close> rows remain.
\<close>

theorem C7_keep_zero_counterexample:
  "\<not> real (length (filter (sameScopeToken ''k:a'' ''t'')
             (snd (trimConversationsForToken ''k:a'' ''t'' 0 [sampleRow ''c1'' ''t'' 1 100]))))
       \<le> 0"
  by (simp add: trimConversationsForToken_def sampleRow_def sameScopeToken_def)

text \<open>
  C7, amended: on a table whose primary key (scope, \<open>openai_conversation_id\<close>) is unique,
  \<open>trimConversationsForToken scope token keep\<close> leaves \<open>min K m\<close> rows of the
  (scope, token) pair, where \<open>m\<close> is their number before and
  \<open>K = max(1, floor(keep))\<close>, with \<open>keep = 0\<close> read as \<open>1\<close>; so at most \<open>K\<close> remain. The
  returned value is the number of rows deleted, rows of other pairs are untouched, and every
  deleted row has an \<open>updated_at\<close> no greater than that of every row of the pair that stays.
\<close>

theorem C7_trim:
  assumes pk: "primaryKeyHolds db"
    and run: "trimConversationsForToken sc tk keep db = (n, db')"
  shows "length (filter (sameScopeToken sc tk) db')
           = min (keepCountOf keep) (length (filter (sameScopeToken sc tk) db))
     \<and> n = length db - length db'
     \<and> filter (\<lambda>r. \<not> sameScopeToken sc tk r) db' = filter (\<lambda>r. \<not> sameScopeToken sc tk r) db
     \<and> (\<forall>kept \<in> set (filter (sameScopeToken sc tk) db'). \<forall>gone \<in> set db - set db'.
           updated_at gone \<le> updated_at kept)"
proof -
  let ?sel = "sameScopeToken sc tk"
  let ?M = "filter ?sel db"
  let ?S = "sort_key (\<lambda>r. - updated_at r) ?M"
  let ?K = "keepCountOf keep"
  let ?stale = "drop ?K ?S"
  have dM: "distinct ?M" using pk_distinct[OF pk] by simp
  have dS: "distinct ?S" using dM by simp
  have dSt: "distinct ?stale" by (rule distinct_drop) (simp add: dM)
  have lenS: "length ?S = length ?M" by simp
  have staleS: "set ?stale \<subseteq> set ?S" by (rule set_drop_subset)
  have staleM: "set ?stale \<subseteq> set ?M" using staleS by simp
  have sub: "set ?stale \<subseteq> set db" using staleM by auto
  show ?thesis
  proof (cases "length ?S \<le> ?K")
    case True
    then have "n = 0" "db' = db" using run by (simp_all add: trim_unfold Let_def)
    then show ?thesis using True lenS by simp
  next
    case False
    then have n: "n = length ?stale"
      and "db' = filter (\<lambda>r. primaryKey r \<notin> set (map primaryKey ?stale)) db"
      using run by (simp_all add: trim_unfold Let_def)
    then have db': "db' = filter (\<lambda>r. r \<notin> set ?stale) db"
      using delete_rows[OF pk sub] by (simp add: foldl_deleteById)
    have len: "length db' = length db - length ?stale"
      unfolding db' by (rule length_filter_notin[OF pk_distinct[OF pk] dSt sub])
    have "card (set ?stale) \<le> card (set db)" by (rule card_mono) (simp, rule sub)
    then have "length ?stale \<le> length db"
      by (simp only: distinct_card[OF dSt] distinct_card[OF pk_distinct[OF pk]])
    then have c2: "n = length db - length db'" using n len by simp
    have selM: "filter ?sel db' = filter (\<lambda>r. r \<notin> set ?stale) ?M"
      unfolding db' by (rule filter_swap)
    have "length (filter (\<lambda>r. r \<notin> set ?stale) ?M) = length ?M - length ?stale"
      by (rule length_filter_notin[OF dM dSt staleM])
    then have c1: "length (filter ?sel db') = min ?K (length ?M)"
      using False lenS selM by simp
    have stale_sel: "?sel r" if "r \<in> set ?stale" for r
      using staleM that by auto
    have c3: "filter (\<lambda>r. \<not> ?sel r) db' = filter (\<lambda>r. \<not> ?sel r) db"
      unfolding db' by (rule filter_filter_absorb) (use stale_sel in blast)
    have kept: "set (filter ?sel db') = set (take ?K ?S)"
      unfolding selM using set_take_drop_split[OF dS, of ?K] by auto
    have gone: "set db - set db' = set ?stale"
      unfolding db' using sub by auto
    have srt: "sorted (map (\<lambda>r. - updated_at r) ?S)" by (rule sorted_sort_key)
    have c4: "\<forall>kept \<in> set (filter ?sel db'). \<forall>gone \<in> set db - set db'.
                updated_at gone \<le> updated_at kept"
      unfolding kept gone
    proof (intro ballI)
      fix a b assume "a \<in> set (take ?K ?S)" "b \<in> set ?stale"
      from sorted_take_drop[OF srt this] show "updated_at b \<le> updated_at a" by simp
    qed
    show ?thesis by (intro conjI c1 c2 c3 c4)
  qed
qed

theorem C7_trim_witness:
  "primaryKeyHolds [sampleRow ''c1'' ''t'' 1 100, sampleRow ''c2'' ''t'' 3 100,
                    sampleRow ''c3'' ''u'' 0 100, sampleRow ''c4'' ''t'' 2 100]
   \<and> trimConversationsForToken ''k:a'' ''t'' 2
         [sampleRow ''c1'' ''t'' 1 100, sampleRow ''c2'' ''t'' 3 100,
          sampleRow ''c3'' ''u'' 0 100, sampleRow ''c4'' ''t'' 2 100]
       = (1, [sampleRow ''c2'' ''t'' 3 100, sampleRow ''c3'' ''u'' 0 100, sampleRow ''c4'' ''t'' 2 100])
   \<and> length (filter (sameScopeToken ''k:a'' ''t'')
         [sampleRow ''c2'' ''t'' 3 100, sampleRow ''c3'' ''u'' 0 100, sampleRow ''c4'' ''t'' 2 100])
       = min (keepCountOf 2) 3"
proof -
  let ?db = "[sampleRow ''c1'' ''t'' 1 100, sampleRow ''c2'' ''t'' 3 100,
              sampleRow ''c3'' ''u'' 0 100, sampleRow ''c4'' ''t'' 2 100]"
  let ?db' = "[sampleRow ''c2'' ''t'' 3 100, sampleRow ''c3'' ''u'' 0 100, sampleRow ''c4'' ''t'' 2 100]"
  have pk: "primaryKeyHolds ?db"
    by (simp add: primaryKeyHolds_def primaryKey_def sampleRow_def)
  have run: "trimConversationsForToken ''k:a'' ''t'' 2 ?db = (1, ?db')"
    by (simp add: trimConversationsForToken_def sampleRow_def deleteById_def primaryKey_def)
  have "length (filter (sameScopeToken ''k:a'' ''t'') ?db')
      = min (keepCountOf 2) (length (filter (sameScopeToken ''k:a'' ''t'') ?db))"
    using C7_trim [OF pk run] by blast
  then show ?thesis using pk run by (simp add: sameScopeToken_def sampleRow_def)
qed

lemma cleanup_unfold:
  "cleanupExpiredConversations limit atMs db =
     (let rows = take (batchOf limit) (sort_key expires_at (filter (expiredAt atMs) db)) in
      if rows = [] then (0, db)
      else (length rows, filter (\<lambda>r. primaryKey r \<notin> set (map primaryKey rows)) db))"
  unfolding cleanupExpiredConversations_def batchOf_def expiredAt_def Let_def foldl_deleteById
  by (rule refl)

lemma batchOf_pos: "0 < batchOf limit"
  by (simp add: batchOf_def)

text \<open>
  C8, as the claim states it, with the bound \<open>clamp(limit, 1, 500)\<close>: refuted. With
  \<open>limit = 0\<close> the batch is \<open>Math.floor(limit || 100) = 100\<close>, so both expired rows of a
  two-row table are deleted, more than \<open>clamp(0, 1, 500) = 1\<close>.
\<close>

theorem C8_limit_zero_counterexample:
  "\<not> real (fst (cleanupExpiredConversations 0 10
               [sampleRow ''c1'' ''t'' 1 5, sampleRow ''c2'' ''t'' 1 6]))
       \<le> clamp 0 1 500"
  by (simp add: cleanupExpiredConversations_def sampleRow_def clamp_def)

text \<open>
  C8, amended: on a table whose primary key is unique,
  \<open>cleanupExpiredConversations limit now\<close> deletes \<open>min B e\<close> rows, where \<open>e\<close> is the number
  of rows with \<open>expires_at \<le> now\<close> and \<open>B = clamp(floor(limit), 1, 500)\<close>, with
  \<open>limit = 0\<close> read as \<open>100\<close>; so at most \<open>B\<close>. It returns the number of rows deleted,
  every deleted row has \<open>expires_at \<le> now\<close>, rows that have not expired are untouched, and
  every deleted row has an \<open>expires_at\<close> no greater than that of every expired row that
  stays (oldest first).
\<close>

theorem C8_cleanup:
  assumes pk: "primaryKeyHolds db"
    and run: "cleanupExpiredConversations limit atMs db = (n, db')"
  shows "n = length db - length db'
     \<and> n = min (batchOf limit) (length (filter (expiredAt atMs) db))
     \<and> filter (\<lambda>r. \<not> expiredAt atMs r) db' = filter (\<lambda>r. \<not> expiredAt atMs r) db
     \<and> (\<forall>gone \<in> set db - set db'. expiredAt atMs gone)
     \<and> (\<forall>gone \<in> set db - set db'. \<forall>left \<in> set (filter (expiredAt atMs) db').
           expires_at gone \<le> expires_at left)"
proof -
  let ?E = "filter (expiredAt atMs) db"
  let ?S = "sort_key expires_at ?E"
  let ?B = "batchOf limit"
  let ?rows = "take ?B ?S"
  have dE: "distinct ?E" using pk_distinct[OF pk] by simp
  have dS: "distinct ?S" using dE by simp
  have dR: "distinct ?rows" by (rule distinct_take) (simp add: dE)
  have lenS: "length ?S = length ?E" by simp
  have rowsS: "set ?rows \<subseteq> set ?S" by (rule set_take_subset)
  have rowsE: "set ?rows \<subseteq> set ?E" using rowsS by simp
  have sub: "set ?rows \<subseteq> set db" using rowsE by auto
  show ?thesis
  proof (cases "?rows = []")
    case True
    then have "n = 0" "db' = db" using run by (simp_all add: cleanup_unfold Let_def)
    moreover have "length ?S = 0" using True batchOf_pos[of limit] by (simp add: take_eq_Nil)
    then have "?E = []" by simp
    ultimately show ?thesis by simp
  next
    case False
    then have n: "n = length ?rows"
      and "db' = filter (\<lambda>r. primaryKey r \<notin> set (map primaryKey ?rows)) db"
      using run by (simp_all add: cleanup_unfold Let_def)
    then have db': "db' = filter (\<lambda>r. r \<notin> set ?rows) db"
      using delete_rows[OF pk sub] by (simp add: foldl_deleteById)
    have len: "length db' = length db - length ?rows"
      unfolding db' by (rule length_filter_notin[OF pk_distinct[OF pk] dR sub])
    have "card (set ?rows) \<le> card (set db)" by (rule card_mono) (simp, rule sub)
    then have "length ?rows \<le> length db"
      by (simp only: distinct_card[OF dR] distinct_card[OF pk_distinct[OF pk]])
    then have c1: "n = length db - length db'" using n len by simp
    have c2: "n = min ?B (length ?E)" using n by simp
    have rows_exp: "expiredAt atMs r" if "r \<in> set ?rows" for r
      using rowsE that by auto
    have c3: "filter (\<lambda>r. \<not> expiredAt atMs r) db' = filter (\<lambda>r. \<not> expiredAt atMs r) db"
      unfolding db' by (rule filter_filter_absorb) (use rows_exp in blast)
    have gone: "set db - set db' = set ?rows"
      unfolding db' using sub by auto
    have c4: "\<forall>gone \<in> set db - set db'. expiredAt atMs gone"
      unfolding gone using rows_exp by blast
    have selE: "filter (expiredAt atMs) db' = filter (\<lambda>r. r \<notin> set ?rows) ?E"
      unfolding db' by (rule filter_swap)
    have "set ?S - set ?rows = set (drop ?B ?S)"
      by (rule set_drop_take_split[OF dS])
    then have left: "set (filter (expiredAt atMs) db') = set (drop ?B ?S)"
      unfolding selE by auto
    have srt: "sorted (map expires_at ?S)" by (rule sorted_sort_key)
    have c5: "\<forall>gone \<in> set db - set db'. \<forall>left \<in> set (filter (expiredAt atMs) db').
                expires_at gone \<le> expires_at left"
      unfolding left gone
    proof (intro ballI)
      fix a b assume "a \<in> set ?rows" "b \<in> set (drop ?B ?S)"
      from sorted_take_drop[OF srt this] show "expires_at a \<le> expires_at b" .
    qed
    show ?thesis by (intro conjI c1 c2 c3 c4 c5)
  qed
qed

theorem C8_cleanup_witness:
  "primaryKeyHolds [sampleRow ''c1'' ''t'' 1 5, sampleRow ''c2'' ''t'' 1 50, sampleRow ''c3'' ''t'' 1 3]
   \<and> cleanupExpiredConversations 1 10
         [sampleRow ''c1'' ''t'' 1 5, sampleRow ''c2'' ''t'' 1 50, sampleRow ''c3'' ''t'' 1 3]
       = (1, [sampleRow ''c1'' ''t'' 1 5, sampleRow ''c2'' ''t'' 1 50])
   \<and> min (batchOf 1)
         (length (filter (expiredAt 10)
            [sampleRow ''c1'' ''t'' 1 5, sampleRow ''c2'' ''t'' 1 50, sampleRow ''c3'' ''t'' 1 3]))
       = (1::nat)"
proof -
  let ?db = "[sampleRow ''c1'' ''t'' 1 5, sampleRow ''c2'' ''t'' 1 50, sampleRow ''c3'' ''t'' 1 3]"
  let ?db' = "[sampleRow ''c1'' ''t'' 1 5, sampleRow ''c2'' ''t'' 1 50]"
  have pk: "primaryKeyHolds ?db"
    by (simp add: primaryKeyHolds_def primaryKey_def sampleRow_def)
  have run: "cleanupExpiredConversations 1 10 ?db = (1, ?db')"
    by (simp add: cleanupExpiredConversations_def sampleRow_def deleteById_def primaryKey_def)
  have "min (batchOf 1) (length (filter (expiredAt 10) ?db)) = (1::nat)"
    by (rule C8_cleanup [OF pk run, THEN conjunct2, THEN conjunct1, symmetric])
  then show ?thesis using pk run by (intro conjI)
qed

lemma find_map_update:
  assumes "find P xs = Some old" "\<And>r. P (f r) = P r"
  shows "find P (map (\<lambda>r. if P r then f r else r) xs) = Some (f old)"
  using assms by (induction xs) (auto split: if_splits)

lemma find_Some_ex: "find P xs = Some x \<Longrightarrow> list_ex P xs"
  by (induction xs) (auto split: if_splits)

lemma filter_map_update:
  "filter (\<lambda>r. \<not> P r) (map (\<lambda>r. if P r then f r else r) xs) = filter (\<lambda>r. \<not> P r) xs"
  if "\<And>r. P (f r) = P r"
  using that by (induction xs) auto

text \<open>
  C10: when a row with the scope and \<open>openai_conversation_id\<close> of the input exists,
  \<open>upsertConversation\<close> leaves its \<open>created_at\<close>, \<open>scope\<close> and \<open>openai_conversation_id\<close>
  unchanged and replaces \<open>grok_conversation_id\<close>, \<open>last_response_id\<close>, \<open>share_link_id\<close>,
  \<open>token\<close>, \<open>history_hash\<close>, \<open>updated_at\<close> and \<open>expires_at\<close> by the values bound to the
  statement (\<open>share_link_id\<close> and \<open>history_hash\<close> trimmed, an absent one the empty string;
  an absent \<open>updated_at\<close> the clock's value). No row is added and the rows of other keys are
  unchanged.
\<close>

theorem C10_upsert:
  assumes old: "selectById db (in_scope inp) (in_openai_conversation_id inp) = Some old"
  shows "\<exists>new. selectById (upsertConversation now1 now2 db inp)
                   (in_scope inp) (in_openai_conversation_id inp) = Some new
     \<and> created_at new = created_at old
     \<and> scope new = scope old
     \<and> openai_conversation_id new = openai_conversation_id old
     \<and> grok_conversation_id new = in_grok_conversation_id inp
     \<and> last_response_id new = in_last_response_id inp
     \<and> share_link_id new = trim (case in_share_link_id inp of Some l \<Rightarrow> l | None \<Rightarrow> [])
     \<and> token new = in_token inp
     \<and> history_hash new = trim (case in_history_hash inp of Some h \<Rightarrow> h | None \<Rightarrow> [])
     \<and> updated_at new = (case in_updated_at inp of Some u \<Rightarrow> u | None \<Rightarrow> now2)
     \<and> expires_at new = in_expires_at inp
     \<and> length (upsertConversation now1 now2 db inp) = length db
     \<and> filter (\<lambda>r. primaryKey r \<noteq> (in_scope inp, in_openai_conversation_id inp))
          (upsertConversation now1 now2 db inp)
        = filter (\<lambda>r. primaryKey r \<noteq> (in_scope inp, in_openai_conversation_id inp)) db"
proof -
  let ?key = "(in_scope inp, in_openai_conversation_id inp)"
  let ?P = "\<lambda>r. primaryKey r = ?key"
  let ?f = "\<lambda>r. r\<lparr> grok_conversation_id := in_grok_conversation_id inp,
                     last_response_id := in_last_response_id inp,
                     share_link_id := trim (case in_share_link_id inp of Some l \<Rightarrow> l | None \<Rightarrow> []),
                     token := in_token inp,
                     history_hash := trim (case in_history_hash inp of Some h \<Rightarrow> h | None \<Rightarrow> []),
                     updated_at := (case in_updated_at inp of Some u \<Rightarrow> u | None \<Rightarrow> now2),
                     expires_at := in_expires_at inp \<rparr>"
  have fnd: "find ?P db = Some old" using old by (simp add: selectById_def)
  have keep: "?P (?f r) = ?P r" for r by (simp add: primaryKey_def)
  have ex: "list_ex ?P db" by (rule find_Some_ex[OF fnd])
  have up: "upsertConversation now1 now2 db inp = map (\<lambda>r. if ?P r then ?f r else r) db"
    using ex by (simp add: upsertConversation_def Let_def)
  have sel: "selectById (upsertConversation now1 now2 db inp)
               (in_scope inp) (in_openai_conversation_id inp) = Some (?f old)"
    unfolding up selectById_def
    using find_map_update[of ?P db old ?f] fnd keep by blast
  have frame: "filter (\<lambda>r. \<not> ?P r) (upsertConversation now1 now2 db inp) = filter (\<lambda>r. \<not> ?P r) db"
    unfolding up
    using filter_map_update[of ?P ?f db] keep by blast
  have len: "length (upsertConversation now1 now2 db inp) = length db"
    unfolding up by simp
  show ?thesis
    by (rule exI[of _ "?f old"]) (simp add: sel len frame)
qed

theorem C10_upsert_witness:
  "\<exists>new. selectById (upsertConversation 40 41 [sampleRow ''c0'' ''t'' 1 100, sampleRow ''c1'' ''t'' 2 100]
                        sampleInput) ''k:a'' ''c1'' = Some new
     \<and> created_at new = 0 \<and> scope new = ''k:a'' \<and> openai_conversation_id new = ''c1''
     \<and> grok_conversation_id new = ''g2'' \<and> last_response_id new = ''r2''
     \<and> share_link_id new = ''link'' \<and> token new = ''t2'' \<and> history_hash new = []
     \<and> updated_at new = 41 \<and> expires_at new = 900"
proof -
  have old: "selectById [sampleRow ''c0'' ''t'' 1 100, sampleRow ''c1'' ''t'' 2 100]
               (in_scope sampleInput) (in_openai_conversation_id sampleInput)
             = Some (sampleRow ''c1'' ''t'' 2 100)"
    by (simp add: selectById_def sampleRow_def sampleInput_def primaryKey_def)
  have tr: "trim '' link '' = ''link''" "trim [] = []"
    by (simp_all add: trim_def trimStart_def trimEnd_def isWhiteSpace_def)
  from C10_upsert [OF old, of 40 41] obtain new where
    sel: "selectById (upsertConversation 40 41
            [sampleRow ''c0'' ''t'' 1 100, sampleRow ''c1'' ''t'' 2 100] sampleInput)
            (in_scope sampleInput) (in_openai_conversation_id sampleInput) = Some new"
    and kept: "created_at new = created_at (sampleRow ''c1'' ''t'' 2 100)"
      "scope new = scope (sampleRow ''c1'' ''t'' 2 100)"
      "openai_conversation_id new = openai_conversation_id (sampleRow ''c1'' ''t'' 2 100)"
    and replaced: "grok_conversation_id new = in_grok_conversation_id sampleInput"
      "last_response_id new = in_last_response_id sampleInput"
      "share_link_id new = trim (case in_share_link_id sampleInput of Some l \<Rightarrow> l | None \<Rightarrow> [])"
      "token new = in_token sampleInput"
      "history_hash new = trim (case in_history_hash sampleInput of Some h \<Rightarrow> h | None \<Rightarrow> [])"
      "updated_at new = (case in_updated_at sampleInput of Some u \<Rightarrow> u | None \<Rightarrow> 41)"
      "expires_at new = in_expires_at sampleInput"
    by blast
  have key: "in_scope sampleInput = ''k:a''" "in_openai_conversation_id sampleInput = ''c1''"
    by (simp_all add: sampleInput_def)
  show ?thesis
  proof (intro exI[of _ new] conjI)
    show "selectById (upsertConversation 40 41
            [sampleRow ''c0'' ''t'' 1 100, sampleRow ''c1'' ''t'' 2 100] sampleInput)
            ''k:a'' ''c1'' = Some new"
      using sel by (simp only: key)
  qed (simp_all add: kept replaced sampleInput_def sampleRow_def tr)
qed

section \<open>Tool-usage card parser: properties\<close>

lemma feed_one_piece:
  "feedPieces rt opts [s] [] [] [] = replaceToolUsageCardsInText rt s opts"
  by (simp add: replaceToolUsageCardsInText_def split: prod.splits sum.splits)

lemma constructor_card_throws:
  "consume sampleRuntime constructorCard sampleCardOptions []
     = (constructorCard, Inl ''keys is not iterable'')"
  by code_simp

text \<open>
  C2 (the parser's result does not depend on how the input is cut into pieces): the code
  breaks it. The card of the specification's scenario S2, fed to \<open>consume\<close> in one piece and
  then flushed, yields no text and the line \<open>[r1][WebSearch] foo\<close>. Cut after its first
  character \<open><\<close>, the first \<open>consume\<close> finds no \<open><xai:\<close> in its buffer and emits \<open><\<close> as
  text; the second no longer sees \<open><xai:tool_usage_card\<close>, finds the inner
  \<open><xai:tool_name>\<close> and emits what stands before it as text: the same line, but the text
  \<open><xai:tool_usage_card>\<close> with it.
\<close>

theorem C2_split_inside_marker:
  "feedPieces sampleRuntime sampleCardOptions [searchCard] [] [] []
     = Inr \<lparr> result_text = [], result_lines = [''[r1][WebSearch] foo''] \<rparr>
   \<and> feedPieces sampleRuntime sampleCardOptions [take 1 searchCard, drop 1 searchCard] [] [] []
     = Inr \<lparr> result_text = ''<xai:tool_usage_card>'', result_lines = [''[r1][WebSearch] foo''] \<rparr>"
  by code_simp

section \<open>Stream transformer: properties\<close>

lemma healthy_stream:
  "createOpenAiStreamFromGrokNdjson sampleRuntime sampleWeb defaultOptions
     (Some (0, [chunkAt 0 [thinkingLine, answerLine], doneAt 5]))
   = ([Enqueue (Chunk defaultModel (''<think>'' @ [CHR 0x0A] @ ''hi'') None),
       Enqueue (Chunk defaultModel ([CHR 0x0A] @ ''</think>'' @ [CHR 0x0A] @ ''hello'') None),
       Enqueue (Chunk defaultModel [] (Some Stop)), Enqueue Done, OnFinish 200 [] [], Close],
      Closed)"
  by code_simp

text \<open>
  Every stream with a body ends in one of two ways. Closed: its events are chunks and
  \<open>onMeta\<close> calls, then \<open>[DONE]\<close>, the \<open>onFinish\<close> call when the callback is supplied, and
  \<open>close\<close>. Not closed (errored in the \<open>catch\<close> block, or still reading): chunks and
  \<open>onMeta\<close> calls only. The callbacks are taken to return normally.
\<close>

lemma settled_simps [simp]:
  "settled opts (Continue st) = quiet (emitted st)"
  "settled opts (Throw err st) = quiet (emitted st)"
  "settled opts (Return st) = closing opts (emitted st)"
  by (simp_all add: settled_def)

lemma steady_simps [simp]:
  "steady (Continue st) = quiet (emitted st)"
  "steady (Throw err st) = quiet (emitted st)"
  "steady (Return st) = False"
  by (simp_all add: steady_def)

lemma quiet_append [simp]: "quiet (xs @ ys) = (quiet xs \<and> quiet ys)"
  by (simp add: quiet_def)

lemma quiet_chunk [simp]: "quiet [Enqueue (Chunk m c f)]" "quiet [OnMeta a b]" "quiet []"
  by (simp_all add: quiet_def)

lemma enqueue_chunk_quiet [simp]:
  "quiet (emitted (enqueue (Chunk m c f) st)) = quiet (emitted st)"
  by (simp add: enqueue_def)

lemma emitTextDelta_quiet [simp]:
  "quiet (emitted (emitTextDelta opts txt ls th tag st)) = quiet (emitted st)"
  by (simp add: emitTextDelta_def Let_def)

lemma closeThinkWrappers_quiet [simp]:
  "quiet (emitted (closeThinkWrappers opts st)) = quiet (emitted st)"
  by (simp add: closeThinkWrappers_def Let_def)

lemma updateMeta_quiet [simp]:
  "quiet (emitted (updateMeta opts part st)) = quiet (emitted st)"
  by (simp add: updateMeta_def Let_def)

lemma videoFrame_quiet [simp]:
  "quiet (emitted (videoFrame rt wb opts v st)) = quiet (emitted st)"
  by (simp add: videoFrame_def Let_def)

lemma finish_closing:
  "quiet (emitted st) \<Longrightarrow> closing opts (emitted (finish opts (enqueue Done st)))"
  unfolding closing_def finish_def enqueue_def
  by (rule exI[of _ "emitted st"]) auto

lemma flushToolBuffer_steady:
  "quiet (emitted st) \<Longrightarrow> steady (flushToolBuffer rt opts th st)"
  by (auto simp: flushToolBuffer_def Let_def split: prod.splits sum.splits)

lemma stopAndFinish_settled:
  assumes "quiet (emitted st)"
  shows "settled opts (stopAndFinish rt opts st)"
  using flushToolBuffer_steady[OF assms, of rt opts "lastIsThinking st"]
  by (cases "flushToolBuffer rt opts (lastIsThinking st) st")
     (auto simp: stopAndFinish_def flushStop_def Let_def intro!: finish_closing)

lemma errorFrame_settled:
  assumes "quiet (emitted st)"
  shows "settled opts (errorFrame rt opts m st)"
proof -
  have "quiet (emitted (st\<lparr> finalStatus := 500 \<rparr>))" using assms by simp
  from flushToolBuffer_steady[OF this, of rt opts "lastIsThinking st"] show ?thesis
    by (cases "flushToolBuffer rt opts (lastIsThinking st) (st\<lparr> finalStatus := 500 \<rparr>)")
       (auto simp: errorFrame_def Let_def intro!: finish_closing)
qed

lemma imageFrame_settled:
  "quiet (emitted st) \<Longrightarrow> settled opts (imageFrame wb opts grok st)"
  by (auto simp: imageFrame_def Let_def intro!: finish_closing
      split: option.splits json.splits)

lemma textFrame_settled:
  "quiet (emitted st) \<Longrightarrow> settled opts (textFrame rt opts grok st)"
  by (auto simp: textFrame_def Let_def split: prod.splits sum.splits)

lemma responseFrame_settled:
  assumes "quiet (emitted st)"
  shows "settled opts (responseFrame rt wb opts data st)"
proof -
  have img: "settled opts (imageFrame wb opts g st')" if "emitted st' = emitted st" for g st'
    by (rule imageFrame_settled) (simp add: that assms)
  have tfr: "settled opts (textFrame rt opts g st')" if "emitted st' = emitted st" for g st'
    by (rule textFrame_settled) (simp add: that assms)
  show ?thesis
    unfolding responseFrame_def Let_def
    by (auto intro!: img tfr simp: assms split: option.splits json.splits)
qed

lemma processLine_settled:
  assumes "quiet (emitted st)"
  shows "settled opts (processLine rt wb opts atMs line st)"
proof -
  have q: "quiet (emitted ((updateMeta opts part st)\<lparr> firstReceived := True, lastChunkTime := atMs \<rparr>))"
    for part using assms by simp
  show ?thesis
    unfolding processLine_def Let_def
    by (auto intro!: responseFrame_settled[OF q] errorFrame_settled[OF q] simp: assms
        split: option.splits)
qed

lemma lineLoop_settled:
  "quiet (emitted st) \<Longrightarrow> settled opts (lineLoop rt wb opts atMs buf st)"
proof (induction rt wb opts atMs buf st rule: lineLoop.induct)
  case (1 rt wb opts atMs buf st)
  show ?case
  proof (cases "indexOf buf [CHR 0x0A]")
    case None
    then show ?thesis using "1.prems" by simp
  next
    case (Some idx)
    have p: "settled opts (processLine rt wb opts atMs (trim (take idx buf)) st)"
      by (rule processLine_settled[OF "1.prems"])
    show ?thesis
    proof (cases "processLine rt wb opts atMs (trim (take idx buf)) st")
      case (Continue st1)
      then have "quiet (emitted st1)" using p by simp
      from "1.IH"[OF Some Continue this] show ?thesis using Some Continue by simp
    next
      case (Return st1)
      then show ?thesis using p Some by simp
    next
      case (Throw err st1)
      then show ?thesis using p Some by simp
    qed
  qed
qed

lemma readLoop_settled:
  "quiet (emitted st) \<Longrightarrow> settled opts (readLoop rt wb opts t0 steps st)"
proof (induction steps arbitrary: st)
  case Nil
  then show ?case by simp
next
  case (Cons step rest)
  define r where
    "r = readWithTimeout (perReadTimeout opts (firstReceived st) (now step - t0)) (race step)"
  have stop: "settled opts (stopAndFinish rt opts st)"
    by (rule stopAndFinish_settled[OF Cons.prems])
  have line: "settled opts (lineLoop rt wb opts (frameTime step) (lineBuffer st @ piece) st)"
    for piece by (rule lineLoop_settled[OF Cons.prems])
  have read: "settled opts
     (case r of
        TimerWins \<Rightarrow> stopAndFinish rt opts st
      | ReadRejected err \<Rightarrow> Throw err st
      | ReadDone \<Rightarrow> stopAndFinish rt opts st
      | ReadValue None \<Rightarrow> readLoop rt wb opts t0 rest st
      | ReadValue (Some piece) \<Rightarrow>
          (case lineLoop rt wb opts (frameTime step) (lineBuffer st @ piece) st of
             Continue st1 \<Rightarrow> readLoop rt wb opts t0 rest st1
           | other \<Rightarrow> other))"
  proof (cases r)
    case TimerWins
    then show ?thesis using stop by simp
  next
    case (ReadValue v)
    show ?thesis
    proof (cases v)
      case None
      then show ?thesis using ReadValue Cons.IH[OF Cons.prems] by simp
    next
      case (Some piece)
      show ?thesis
        using line[of piece] Cons.IH ReadValue Some
        by (cases "lineLoop rt wb opts (frameTime step) (lineBuffer st @ piece) st") simp_all
    qed
  next
    case ReadDone
    then show ?thesis using stop by simp
  next
    case (ReadRejected err)
    then show ?thesis using Cons.prems by simp
  qed
  show ?case using stop read unfolding r_def by (auto simp: Let_def)
qed

lemma catchBlock_outcome:
  assumes "quiet (emitted st)"
  shows "case catchBlock rt opts err st of
           (evs, Closed) \<Rightarrow> closing opts evs
         | (evs, other) \<Rightarrow> quiet evs"
proof -
  have "quiet (emitted (st\<lparr> finalStatus := 500 \<rparr>))" using assms by simp
  from flushToolBuffer_steady[OF this, of rt opts "lastIsThinking st"] show ?thesis
    by (cases "flushToolBuffer rt opts (lastIsThinking st) (st\<lparr> finalStatus := 500 \<rparr>)")
       (auto simp: catchBlock_def Let_def intro!: finish_closing)
qed

lemma stream_outcome:
  "case createOpenAiStreamFromGrokNdjson rt wb opts (Some (t0, steps)) of
     (evs, Closed) \<Rightarrow> closing opts evs
   | (evs, other) \<Rightarrow> quiet evs"
proof -
  have q: "quiet (emitted (initialState t0))" by (simp add: initialState_def)
  have s: "settled opts (readLoop rt wb opts t0 steps (initialState t0))"
    by (rule readLoop_settled[OF q])
  show ?thesis
  proof (cases "readLoop rt wb opts t0 steps (initialState t0)")
    case (Continue st)
    then show ?thesis using s by (simp add: createOpenAiStreamFromGrokNdjson_def)
  next
    case (Return st)
    then show ?thesis using s by (simp add: createOpenAiStreamFromGrokNdjson_def)
  next
    case (Throw err st)
    then have "quiet (emitted st)" using s by simp
    from catchBlock_outcome[OF this, where rt=rt and opts=opts and err=err] show ?thesis
      using Throw by (simp add: createOpenAiStreamFromGrokNdjson_def)
  qed
qed

lemma quiet_counts:
  "quiet evs \<Longrightarrow> doneFrames evs = 0 \<and> finishCalls evs = 0"
  by (induction evs) (auto simp: quiet_def doneFrames_def finishCalls_def split: event.splits frame.splits)

lemma closing_counts:
  assumes "closing opts evs"
  shows "doneFrames evs = 1 \<and> finishCalls evs = (if hasOnFinish opts then 1 else 0)"
proof -
  from assms obtain pre s c r where pre: "quiet pre"
    and evs: "evs = pre @ [Enqueue Done] @ (if hasOnFinish opts then [OnFinish s c r] else []) @ [Close]"
    unfolding closing_def by blast
  from quiet_counts[OF pre] show ?thesis
    unfolding evs by (simp add: doneFrames_def finishCalls_def)
qed

lemma constructor_stream:
  "createOpenAiStreamFromGrokNdjson sampleRuntime sampleWeb defaultOptions
     (Some (0, [chunkAt 0 [constructorLine], doneAt 5]))
   = ([], Errored ''keys is not iterable'')"
  by code_simp

text \<open>
  C1 (every stream carries exactly one \<open>[DONE]\<close> frame, its last): the code breaks it. The
  upstream sends one frame whose token is a tool-usage card named \<open>constructor\<close> with the
  arguments \<open>{}\<close>. \<open>resolveContent\<close> looks the name up in the object literal \<open>keysByType\<close>
  and gets the inherited \<open>Object\<close> function, whose iteration throws a \<open>TypeError\<close> in
  \<open>consume\<close>; the card is still in the parser's buffer, so \<open>flushToolBuffer\<close> throws again
  inside the \<open>catch\<close> block, before the error chunk and \<open>[DONE]\<close> are enqueued. The stream
  ends errored with no frame at all.
\<close>

theorem C1_no_done_frame:
  "createOpenAiStreamFromGrokNdjson sampleRuntime sampleWeb defaultOptions
     (Some (0, [chunkAt 0 [constructorLine], doneAt 5]))
   = ([], Errored ''keys is not iterable'')
   \<and> doneFrames (fst (createOpenAiStreamFromGrokNdjson sampleRuntime sampleWeb defaultOptions
         (Some (0, [chunkAt 0 [constructorLine], doneAt 5])))) = 0"
  unfolding constructor_stream fst_conv by (simp add: doneFrames_def)

lemma thinking_then_constructor_stream:
  "createOpenAiStreamFromGrokNdjson sampleRuntime sampleWeb defaultOptions
     (Some (0, [chunkAt 0 [thinkingLine, constructorLine], doneAt 5]))
   = ([Enqueue (Chunk defaultModel (''<think>'' @ [CHR 0x0A] @ ''hi'') None)],
      Errored ''keys is not iterable'')"
  by code_simp

lemma video_then_constructor_stream:
  "createOpenAiStreamFromGrokNdjson sampleRuntime sampleWeb defaultOptions
     (Some (0, [chunkAt 0 [videoLine, constructorLine], doneAt 5]))
   = ([Enqueue (Chunk defaultModel (''<think>'' @ videoProgressLabel @ ''50%'' @ [CHR 0x0A]) None)],
      Errored ''keys is not iterable'')"
  by code_simp

lemma think_wrapper_counts:
  "thinkOpens [Enqueue (Chunk defaultModel (''<think>'' @ [CHR 0x0A] @ ''hi'') None)] = 1"
  "thinkCloses [Enqueue (Chunk defaultModel (''<think>'' @ [CHR 0x0A] @ ''hi'') None)] = 0"
  "thinkOpens
     [Enqueue (Chunk defaultModel (''<think>'' @ videoProgressLabel @ ''50%'' @ [CHR 0x0A]) None)] = 1"
  "thinkCloses
     [Enqueue (Chunk defaultModel (''<think>'' @ videoProgressLabel @ ''50%'' @ [CHR 0x0A]) None)] = 0"
  by code_simp+

text \<open>
  C3 (as many \<open></think>\<close> as \<open><think>\<close>, an open video-progress block closed at the end):
  the code breaks it, by the defect of C1. A thinking token opens the think wrapper, or a
  video progress of 50 opens the video-progress block; the next frame carries the card named
  \<open>constructor\<close>, and the \<open>catch\<close> block throws in \<open>flushToolBuffer\<close> before it reaches
  \<open>closeThinkWrappers\<close>. One \<open><think>\<close> has been emitted and no \<open></think>\<close>.
\<close>

theorem C3_think_left_open:
  "createOpenAiStreamFromGrokNdjson sampleRuntime sampleWeb defaultOptions
     (Some (0, [chunkAt 0 [thinkingLine, constructorLine], doneAt 5]))
   = ([Enqueue (Chunk defaultModel (''<think>'' @ [CHR 0x0A] @ ''hi'') None)],
      Errored ''keys is not iterable'')
   \<and> thinkOpens (fst (createOpenAiStreamFromGrokNdjson sampleRuntime sampleWeb defaultOptions
         (Some (0, [chunkAt 0 [thinkingLine, constructorLine], doneAt 5])))) = 1
   \<and> thinkCloses (fst (createOpenAiStreamFromGrokNdjson sampleRuntime sampleWeb defaultOptions
         (Some (0, [chunkAt 0 [thinkingLine, constructorLine], doneAt 5])))) = 0
   \<and> createOpenAiStreamFromGrokNdjson sampleRuntime sampleWeb defaultOptions
     (Some (0, [chunkAt 0 [videoLine, constructorLine], doneAt 5]))
   = ([Enqueue (Chunk defaultModel (''<think>'' @ videoProgressLabel @ ''50%'' @ [CHR 0x0A]) None)],
      Errored ''keys is not iterable'')
   \<and> thinkOpens (fst (createOpenAiStreamFromGrokNdjson sampleRuntime sampleWeb defaultOptions
         (Some (0, [chunkAt 0 [videoLine, constructorLine], doneAt 5])))) = 1
   \<and> thinkCloses (fst (createOpenAiStreamFromGrokNdjson sampleRuntime sampleWeb defaultOptions
         (Some (0, [chunkAt 0 [videoLine, constructorLine], doneAt 5])))) = 0"
  unfolding thinking_then_constructor_stream video_then_constructor_stream fst_conv
  by (intro conjI refl think_wrapper_counts)

lemma flush_empty_buffer:
  "flush rt o1 True [] = ([], Inr \<lparr> result_text = [], result_lines = [] \<rparr>)"
  by (simp add: flush_def consume_def)

lemma stopAndFinish_initial:
  "stopAndFinish rt opts (initialState t0)
   = Return ((initialState t0)\<lparr> emitted :=
       [Enqueue (Chunk defaultModel [] (Some Stop)), Enqueue Done]
       @ (if hasOnFinish opts then [OnFinish 200 [] []] else []) @ [Close] \<rparr>)"
  by (simp add: stopAndFinish_def flushStop_def flushToolBuffer_def flush_empty_buffer
      closeThinkWrappers_def enqueue_def finish_def initialState_def Let_def)

lemma perReadTimeout_first_zero:
  assumes "stream_first_response_timeout (settings opts) = Some 0"
  shows "perReadTimeout opts False elapsed = 0"
  using assms by (simp add: perReadTimeout_def firstTimeoutMs_def Let_def)

lemma zero_chunk_timeout_stops:
  assumes "stream_chunk_timeout (settings opts) = Some 0" "firstReceived st"
  shows "readLoop rt wb opts t0 (step # rest) st = stopAndFinish rt opts st"
proof -
  have "perReadTimeout opts True e = 0" for e
    using assms(1) by (simp add: perReadTimeout_def chunkTimeoutMs_def Let_def)
  then show ?thesis
    using assms(2) by (simp add: readWithTimeout_def Let_def)
qed

text \<open>
  C4 (a timeout bound set to \<open>0\<close> is disabled): the code breaks it for the first-response
  bound. Only \<open>totalTimeoutMs\<close> is guarded by \<open>> 0\<close>. With
  \<open>stream_first_response_timeout = 0\<close> the first read gets the timeout
  \<open>Math.min(0, ...) = 0\<close>, \<open>readWithTimeout\<close> answers \<open>{timeout: true}\<close> without reading, and
  the stream is stopped: whatever the upstream holds and whenever it answers, the output is
  the empty stop chunk and \<open>[DONE]\<close>. (\<open>zero_chunk_timeout_stops\<close> is the same for the chunk
  bound once a frame has been received.)
\<close>

theorem C4_zero_first_timeout_stops:
  assumes "stream_first_response_timeout (settings opts) = Some 0"
  shows "perReadTimeout opts False elapsed = 0
   \<and> createOpenAiStreamFromGrokNdjson rt wb opts (Some (t0, step # rest))
     = ([Enqueue (Chunk defaultModel [] (Some Stop)), Enqueue Done]
        @ (if hasOnFinish opts then [OnFinish 200 [] []] else []) @ [Close], Closed)"
proof -
  have t: "perReadTimeout opts False e = 0" for e
    by (rule perReadTimeout_first_zero [OF assms])
  have "readLoop rt wb opts t0 (step # rest) (initialState t0) = stopAndFinish rt opts (initialState t0)"
    by (simp add: t readWithTimeout_def Let_def initialState_def)
  then show ?thesis
    by (simp add: createOpenAiStreamFromGrokNdjson_def stopAndFinish_initial t)
qed

theorem C4_zero_first_timeout_stops_witness:
  "createOpenAiStreamFromGrokNdjson sampleRuntime sampleWeb
     (defaultOptions\<lparr> settings := defaultSettings\<lparr> stream_first_response_timeout := Some 0 \<rparr> \<rparr>)
     (Some (0, [chunkAt 0 [answerLine], doneAt 5]))
   = ([Enqueue (Chunk defaultModel [] (Some Stop)), Enqueue Done, OnFinish 200 [] [], Close], Closed)"
  using C4_zero_first_timeout_stops
    [of "defaultOptions\<lparr> settings := defaultSettings\<lparr> stream_first_response_timeout := Some 0 \<rparr> \<rparr>"
        0 sampleRuntime sampleWeb 0 "chunkAt 0 [answerLine]" "[doneAt 5]"]
  by (simp add: defaultOptions_def)

lemma answer_then_constructor_stream:
  "createOpenAiStreamFromGrokNdjson sampleRuntime sampleWeb defaultOptions
     (Some (0, [chunkAt 0 [answerLine, constructorLine], doneAt 5]))
   = ([Enqueue (Chunk defaultModel ''hello'' None)], Errored ''keys is not iterable'')"
  by code_simp

text \<open>
  C9 (a null body yields the chunk \<open>Empty response\<close> with \<open>finish_reason\<close> \<open>error\<close>, then
  \<open>[DONE]\<close>, and never \<open>onFinish\<close>; every other termination path invokes \<open>onFinish\<close>
  exactly once): the first part holds for every configuration, the code breaks the second
  by the defect of C1. After an answer token the frame with the card named \<open>constructor\<close>
  ends the stream through the \<open>catch\<close> block, which throws before it reaches \<open>onFinish\<close>:
  the callback, though supplied, is not invoked.
\<close>

theorem C9_null_body_and_missed_finish:
  "createOpenAiStreamFromGrokNdjson rt wb opts None
   = ([Enqueue (Chunk defaultModel ''Empty response'' (Some Error)), Enqueue Done, Close], Closed)
   \<and> createOpenAiStreamFromGrokNdjson sampleRuntime sampleWeb defaultOptions
     (Some (0, [chunkAt 0 [answerLine, constructorLine], doneAt 5]))
   = ([Enqueue (Chunk defaultModel ''hello'' None)], Errored ''keys is not iterable'')
   \<and> finishCalls (fst (createOpenAiStreamFromGrokNdjson sampleRuntime sampleWeb defaultOptions
         (Some (0, [chunkAt 0 [answerLine, constructorLine], doneAt 5])))) = 0"
  unfolding answer_then_constructor_stream fst_conv
  by (simp add: createOpenAiStreamFromGrokNdjson_def finishCalls_def)

end
